theory Spec2Isabelle
  imports Complex_Main
begin

section \<open>Constants of the two scripts\<close>

text \<open>
  The repository holds two CircuitPython scripts: the SCD40 monitor (CO2, temperature,
  humidity) and the SGP30 monitor (approximate CO2 and VOC, with a persisted baseline).
  Times are the values of \<open>time.monotonic()\<close>, in seconds; they are modelled as
  real numbers, so the rounding of the board's floating point clock is idealised away.
  Colours are the 24 bit RGB numbers of the source.
\<close>

definition CO2_THRESHOLD :: int where "CO2_THRESHOLD = 1000"
definition VOC_THRESHOLD :: int where "VOC_THRESHOLD = 250"
definition UPDATE_INTERVAL :: real where "UPDATE_INTERVAL = 4"
definition WARMUP_TIME :: real where "WARMUP_TIME = 15"
definition CALIBRATION_TIME :: real where "CALIBRATION_TIME = 12 * 3600"
definition BASELINE_SAVE_INTERVAL :: real where "BASELINE_SAVE_INTERVAL = 3600"
definition LOADING_INTERVAL :: real where "LOADING_INTERVAL = 5 / 100"
definition LOADING_PHASE_SLEEP :: real where "LOADING_PHASE_SLEEP = 1 / 100"

definition SPINNER_CHARS :: "string list" where
  "SPINNER_CHARS = [''|'', ''/'', ''-'', [CHR 0x5C]]"

definition COLOR_BLACK :: nat where "COLOR_BLACK = 0x000000"
definition COLOR_WHITE :: nat where "COLOR_WHITE = 0xFFFFFF"
definition COLOR_GREEN :: nat where "COLOR_GREEN = 0x00FF00"
definition COLOR_RED :: nat where "COLOR_RED = 0xFF0000"

section \<open>Python values: exceptions, printed lines, number formatting\<close>

text \<open>
  The exceptions the two scripts can meet. An \<open>OSError\<close> carries its errno, the
  first of its arguments, as the ones raised by the file system and the bus do.
  A printed line is its text; a line that interpolates an exception keeps the exception
  itself, since the text of \<open>str(e)\<close> belongs to the interpreter.
\<close>

datatype exn =
    OSError int
  | KeyError string
  | ValueError
  | TypeError
  | IndexError
  | RuntimeError

datatype log_line = Printed string | PrintedExn string exn

text \<open>
  Python text is kept as the byte sequence of its UTF-8 encoding: the degree sign and
  the two Font Awesome glyphs of the source lie outside ASCII.
\<close>

definition DEGREE_SIGN :: string where "DEGREE_SIGN = [CHR 0xC2, CHR 0xB0]"
definition GLYPH_SMILE :: string where "GLYPH_SMILE = [CHR 0xEF, CHR 0x84, CHR 0x98]"
definition GLYPH_FROWN :: string where "GLYPH_FROWN = [CHR 0xEF, CHR 0x84, CHR 0x99]"

definition dec_digit :: "nat \<Rightarrow> char" where
  "dec_digit d = ''0123456789'' ! d"

definition hex_digit :: "nat \<Rightarrow> char" where
  "hex_digit d = ''0123456789abcdef'' ! d"

fun str_nat :: "nat \<Rightarrow> string" where
  "str_nat n = (if n < 10 then [dec_digit n] else str_nat (n div 10) @ [dec_digit (n mod 10)])"

fun hex_nat :: "nat \<Rightarrow> string" where
  "hex_nat n = (if n < 16 then [hex_digit n] else hex_nat (n div 16) @ [hex_digit (n mod 16)])"

declare str_nat.simps [simp del]
declare hex_nat.simps [simp del]

text \<open>\<open>str(i)\<close> and \<open>format(i, 'x')\<close> of a Python int.\<close>

definition str_int :: "int \<Rightarrow> string" where
  "str_int i = (if i < 0 then CHR ''-'' # str_nat (nat (- i)) else str_nat (nat i))"

definition hex_int :: "int \<Rightarrow> string" where
  "hex_int i = (if i < 0 then CHR ''-'' # hex_nat (nat (- i)) else hex_nat (nat i))"

text \<open>\<open>int(x)\<close> of a Python float truncates towards zero.\<close>

definition py_int :: "real \<Rightarrow> int" where
  "py_int x = (if 0 \<le> x then \<lfloor>x\<rfloor> else \<lceil>x\<rceil>)"

section \<open>Warm-up tracking (SGP30 script)\<close>

record warmup_status =
  warmed_up :: bool
  fully_calibrated :: bool
  elapsed_time :: real

text \<open>
  \<open>check_warmup_status\<close> reads the clock (\<open>now\<close>) and the global
  \<open>start_time\<close>, which is \<open>None\<close> until \<open>initialize_baseline_tracking\<close>
  has run; subtracting \<open>None\<close> raises.
\<close>

definition check_warmup_status :: "real \<Rightarrow> real option \<Rightarrow> exn + warmup_status" where
  "check_warmup_status now start_time =
     (case start_time of
        None \<Rightarrow> Inl TypeError
      | Some s \<Rightarrow>
          (let elapsed = now - s in
           Inr \<lparr>warmed_up = elapsed > WARMUP_TIME,
                fully_calibrated = elapsed > CALIBRATION_TIME,
                elapsed_time = elapsed\<rparr>))"

text \<open>
  The three states of the specification, read off the two flags the code returns, and
  the classification as the specification words it.
\<close>

datatype warmup_state = NotWarmedUp | Warmed | FullyCalibrated

definition state_of_status :: "warmup_status \<Rightarrow> warmup_state" where
  "state_of_status st =
     (if fully_calibrated st then FullyCalibrated
      else if warmed_up st then Warmed else NotWarmedUp)"

definition classify_spec :: "real \<Rightarrow> warmup_state" where
  "classify_spec e =
     (if e < WARMUP_TIME then NotWarmedUp
      else if e < CALIBRATION_TIME then Warmed else FullyCalibrated)"

section \<open>The display\<close>

text \<open>
  Every label object of the two scripts; each script creates five of them, and the two
  it does not create are never written. The screen is the one palette entry of the
  background and the text and colour of every label.
  An assignment to one of these attributes is a \<open>write\<close>; the renderers below give
  the assignments they execute, in program order, and the screen after them.
\<close>

datatype label =
  co2_label | co2_value | temp_label | humid_label | icon_label | voc_status | voc_label

record screen =
  palette0 :: nat
  label_text :: "label \<Rightarrow> string"
  label_color :: "label \<Rightarrow> nat"

datatype scr_write = SetPalette nat | SetText label string | SetColor label nat

fun perform :: "scr_write \<Rightarrow> screen \<Rightarrow> screen" where
  "perform (SetPalette c) scr = scr\<lparr>palette0 := c\<rparr>"
| "perform (SetText l t) scr = scr\<lparr>label_text := (label_text scr)(l := t)\<rparr>"
| "perform (SetColor l c) scr = scr\<lparr>label_color := (label_color scr)(l := c)\<rparr>"

text \<open>A write is redundant on a screen when the attribute already holds the value.\<close>

fun redundant :: "screen \<Rightarrow> scr_write \<Rightarrow> bool" where
  "redundant scr (SetPalette c) = (palette0 scr = c)"
| "redundant scr (SetText l t) = (label_text scr l = t)"
| "redundant scr (SetColor l c) = (label_color scr l = c)"

fun is_color_write :: "scr_write \<Rightarrow> bool" where
  "is_color_write (SetPalette c) = True"
| "is_color_write (SetText l t) = False"
| "is_color_write (SetColor l c) = True"

text \<open>
  \<open>update_spinner_animation\<close> indexes \<open>SPINNER_CHARS\<close>; an index past the end
  raises. The labels \<open>bare\<close> are the ones that show the spinner character alone.
\<close>

definition update_spinner_animation :: "label list \<Rightarrow> nat \<Rightarrow> exn + scr_write list" where
  "update_spinner_animation bare frame =
     (if frame < length SPINNER_CHARS
      then Inr (SetText co2_label (''Loading '' @ SPINNER_CHARS ! frame)
                # map (\<lambda>l. SetText l (SPINNER_CHARS ! frame)) bare)
      else Inl IndexError)"

section \<open>The SCD40 script\<close>

record prev_scd40 =
  p_co2 :: "int option"
  p_temp :: "int option"
  p_humidity :: "int option"
  p_is_high :: "bool option"

definition prev_values_scd40 :: prev_scd40 where
  "prev_values_scd40 = \<lparr>p_co2 = None, p_temp = None, p_humidity = None, p_is_high = None\<rparr>"

text \<open>The labels as created, and the writes of \<open>show_loading_screen\<close>.\<close>

definition created_scd40 :: screen where
  "created_scd40 =
     \<lparr>palette0 = 0x000000,
      label_text = (\<lambda>l. []),
      label_color = (\<lambda>l. if l = icon_label then 0x00FF00 else 0xFFFFFF)\<rparr>"

definition show_loading_screen_scd40 :: "scr_write list" where
  "show_loading_screen_scd40 =
     [SetText co2_label ''Loading...'', SetText co2_value [],
      SetText temp_label ''...'', SetText humid_label ''...'', SetText icon_label []]"

definition update_labels_scd40 ::
  "int \<Rightarrow> int \<Rightarrow> int \<Rightarrow> bool \<Rightarrow> prev_scd40 \<times> screen \<Rightarrow> (prev_scd40 \<times> screen) \<times> scr_write list" where
  "update_labels_scd40 co2 temp humidity is_high ps =
     (let prev = fst ps; scr = snd ps;
          ws_high =
            (if p_is_high prev \<noteq> Some is_high then
               (let new_color = (if is_high then 0x000000 else 0xFFFFFF) in
                [SetPalette (if is_high then 0xFFFFFF else 0x000000)]
                @ map (\<lambda>l. SetColor l new_color) [co2_label, co2_value, temp_label, humid_label]
                @ [SetText icon_label (if \<not> is_high then GLYPH_SMILE else GLYPH_FROWN),
                   SetColor icon_label (if \<not> is_high then 0x00FF00 else 0xFF0000)])
             else []);
          ws_co2 =
            (if p_co2 prev \<noteq> Some co2 then
               [SetText co2_label (''CO2: '' @ (if is_high then ''HIGH'' else ''good'')),
                SetText co2_value (str_int co2)]
             else []);
          ws_temp =
            (if p_temp prev \<noteq> Some temp then
               [SetText temp_label (str_int temp @ DEGREE_SIGN @ ''F'')]
             else []);
          ws_humid =
            (if p_humidity prev \<noteq> Some humidity then
               [SetText humid_label (str_int humidity @ ''%'')]
             else []);
          ws = ws_high @ ws_co2 @ ws_temp @ ws_humid
      in ((\<lparr>p_co2 = Some co2, p_temp = Some temp,
             p_humidity = Some humidity, p_is_high = Some is_high\<rparr>,
           fold perform ws scr), ws))"

text \<open>
  One poll of the sensor inside \<open>update\<close>: reading \<open>data_ready\<close> or a
  measurement raises, or no data is ready, or a sample (CO2 in ppm, temperature in
  degrees Celsius, relative humidity) is read.
\<close>

datatype scd40_poll = ReadFails exn | NotReady | Sample int real real

record scd40_state =
  prev_values :: prev_scd40
  display :: screen
  animation_frame :: nat
  last_animation_time :: real
  printed :: "log_line list"

definition update_scd40 :: "real \<Rightarrow> scd40_poll \<Rightarrow> scd40_state \<Rightarrow> scd40_state" where
  "update_scd40 current_time poll st =
     (case poll of
        ReadFails e \<Rightarrow> st\<lparr>printed := printed st @ [PrintedExn ''Error reading sensor: '' e]\<rparr>
      | Sample c t h \<Rightarrow>
          (let co2 = c;
               temp = py_int (t * (9 / 5) + 32);
               humidity = py_int h;
               is_high = (co2 \<ge> CO2_THRESHOLD);
               out = [Printed (''CO2: '' @ str_int co2 @ ''ppm''),
                      Printed (''Temperature: '' @ str_int temp @ DEGREE_SIGN @ ''F''),
                      Printed (''Humidity: '' @ str_int humidity @ ''%'' @ [CHR 0x0A])];
               r = update_labels_scd40 co2 temp humidity is_high (prev_values st, display st)
           in st\<lparr>prev_values := fst (fst r), display := snd (fst r),
                 printed := printed st @ out\<rparr>)
      | NotReady \<Rightarrow>
          (if p_co2 (prev_values st) = None then
             (if current_time - last_animation_time st \<ge> LOADING_INTERVAL then
                (case update_spinner_animation [temp_label, humid_label]
                        (animation_frame st mod length SPINNER_CHARS) of
                   Inl e \<Rightarrow> st\<lparr>printed := printed st @ [PrintedExn ''Error reading sensor: '' e]\<rparr>
                 | Inr ws \<Rightarrow>
                     st\<lparr>display := fold perform ws (display st),
                        animation_frame := animation_frame st + 1,
                        last_animation_time := current_time\<rparr>)
              else st)
           else st))"

text \<open>
  One iteration of \<open>while True\<close>: the update, then the sleep the iteration chooses.
  A run of the loop is the list of what the clock and the sensor give at each iteration;
  it returns the final state and the sleeps, in order.
\<close>

definition loop_step_scd40 :: "real \<times> scd40_poll \<Rightarrow> scd40_state \<Rightarrow> scd40_state \<times> real" where
  "loop_step_scd40 inp st =
     (let st' = update_scd40 (fst inp) (snd inp) st
      in (st', if p_co2 (prev_values st') = None then LOADING_PHASE_SLEEP else UPDATE_INTERVAL))"

fun run_scd40 :: "(real \<times> scd40_poll) list \<Rightarrow> scd40_state \<Rightarrow> scd40_state \<times> real list" where
  "run_scd40 [] st = (st, [])"
| "run_scd40 (inp # inps) st =
     (let r = loop_step_scd40 inp st; rest = run_scd40 inps (fst r)
      in (fst rest, snd r # snd rest))"

text \<open>The state when the loop is entered; \<open>t0\<close> is the clock at module load.\<close>

definition boot_scd40 :: "real \<Rightarrow> scd40_state" where
  "boot_scd40 t0 =
     \<lparr>prev_values = prev_values_scd40,
      display = fold perform show_loading_screen_scd40 created_scd40,
      animation_frame = 0,
      last_animation_time = t0,
      printed = []\<rparr>"

section \<open>The SGP30 script\<close>

subsection \<open>State\<close>

record prev_sgp30 =
  q_co2 :: "int option"
  q_voc :: "int option"
  q_is_high :: "bool option"

text \<open>
  What \<open>open\<close> and \<open>json.load\<close> find at \<open>sgp30_baseline.json\<close>: no file, a file
  whose opening or reading fails with an errno, text that is not JSON, JSON that is not
  an object, or an object. A member of the object is an integer or anything else.
\<close>

datatype jval = JInt int | JNonInt

datatype baseline_file =
    Absent
  | Unreadable int
  | NotJson
  | JsonNonObject
  | JsonObject "string \<rightharpoonup> jval"

text \<open>
  The history is not program state: it records, for the properties about rate limiting,
  each call of \<open>save_baseline\<close> made by \<open>update_baseline\<close> and each completed write
  of the file, with the clock value the code used there. No branch reads it.
\<close>

datatype event = SaveInvoked real | BaselineWritten real

record sgp30_state =
  start_time :: "real option"
  last_baseline_save :: real
  sgp_animation_frame :: nat
  sgp_last_animation_time :: real
  sgp_prev_values :: prev_sgp30
  sgp_display :: screen
  led :: bool
  stored :: baseline_file
  iaq_baseline :: "(int \<times> int) option"
  sgp_printed :: "log_line list"
  history :: "event list"

text \<open>
  A statement either completes in a state (\<open>Inr\<close>) or raises an exception in a state
  (\<open>Inl\<close>): what was assigned before the raise stays assigned.
\<close>

type_synonym 'a completion = "exn \<times> sgp30_state + 'a"

definition say :: "log_line \<Rightarrow> sgp30_state \<Rightarrow> sgp30_state" where
  "say l st = st\<lparr>sgp_printed := sgp_printed st @ [l]\<rparr>"

definition initialize_baseline_tracking :: "real \<Rightarrow> sgp30_state \<Rightarrow> sgp30_state" where
  "initialize_baseline_tracking now st = st\<lparr>start_time := Some now\<rparr>"

subsection \<open>Baseline store\<close>

text \<open>
  \<open>load_baseline\<close>. The body of the \<open>try\<close> raises \<open>OSError\<close> when the file cannot
  be opened or read, \<open>ValueError\<close> when \<open>json.load\<close> rejects the text,
  \<open>TypeError\<close> when the loaded value cannot be indexed by a string, \<open>KeyError\<close>
  when a key is missing (\<open>eCO2\<close> is looked up first). \<open>set_iaq_baseline\<close> belongs to
  the sensor driver: it shifts its arguments, so a non-integer raises \<open>TypeError\<close>,
  and for integers \<open>iaq_raises\<close> says whether the driver raises (rejected values, bus
  failure). The handler takes \<open>OSError\<close> and \<open>KeyError\<close>; anything else leaves the
  function.
\<close>

definition load_baseline_except :: "exn \<Rightarrow> sgp30_state \<Rightarrow> (bool \<times> sgp30_state) completion" where
  "load_baseline_except e st =
     (case e of
        OSError n \<Rightarrow>
          Inr (False, say (Printed ''No stored baseline found - starting fresh calibration'') st)
      | KeyError k \<Rightarrow>
          Inr (False, say (Printed ''No stored baseline found - starting fresh calibration'') st)
      | _ \<Rightarrow> Inl (e, st))"

definition load_baseline :: "exn option \<Rightarrow> sgp30_state \<Rightarrow> (bool \<times> sgp30_state) completion" where
  "load_baseline iaq_raises st =
     (case stored st of
        Absent \<Rightarrow> load_baseline_except (OSError 2) st
      | Unreadable n \<Rightarrow> load_baseline_except (OSError n) st
      | NotJson \<Rightarrow> load_baseline_except ValueError st
      | JsonNonObject \<Rightarrow> load_baseline_except TypeError st
      | JsonObject baseline \<Rightarrow>
          (case baseline ''eCO2'' of
             None \<Rightarrow> load_baseline_except (KeyError ''eCO2'') st
           | Some e \<Rightarrow>
               (case baseline ''TVOC'' of
                  None \<Rightarrow> load_baseline_except (KeyError ''TVOC'') st
                | Some t \<Rightarrow>
                    (case (e, t) of
                       (JInt ei, JInt ti) \<Rightarrow>
                         (case iaq_raises of
                            Some x \<Rightarrow> load_baseline_except x st
                          | None \<Rightarrow>
                              Inr (True,
                                   say (Printed (''eCO2: 0x'' @ hex_int ei @ '', TVOC: 0x'' @ hex_int ti))
                                     (say (Printed ''Loaded stored baseline values:'')
                                        (st\<lparr>iaq_baseline := Some (ei, ti)\<rparr>))))
                     | _ \<Rightarrow> load_baseline_except TypeError st))))"

text \<open>
  \<open>save_baseline\<close>. Its inputs from outside: the clock, the two baseline values read
  from the sensor (or the exception the read raises), and what the file system does
  with the write: it succeeds, \<open>open\<close> fails with an errno (30 on a read-only file
  system) and leaves the file alone, or \<open>json.dump\<close> fails with an errno after
  \<open>open\<close> has truncated the file.
\<close>

datatype write_outcome = WriteOk | OpenFails int | DumpFails int

record save_io =
  save_clock :: real
  sensor_baseline :: "exn + int \<times> int"
  file_write :: write_outcome

definition save_baseline_except :: "exn \<Rightarrow> sgp30_state \<Rightarrow> sgp30_state completion" where
  "save_baseline_except e st =
     (case e of
        OSError n \<Rightarrow>
          (if n = 30
           then Inr (say (Printed ''Could not save baseline - filesystem is read-only'') st)
           else Inr (say (PrintedExn ''Error saving baseline: '' e) st))
      | _ \<Rightarrow> Inl (e, st))"

definition save_baseline :: "save_io \<Rightarrow> sgp30_state \<Rightarrow> sgp30_state completion" where
  "save_baseline io st =
     (let current_time = save_clock io in
      case start_time st of
        None \<Rightarrow> Inl (TypeError, st)
      | Some s \<Rightarrow>
          (if current_time - s > CALIBRATION_TIME then
             (if current_time - s > CALIBRATION_TIME then
                (case sensor_baseline io of
                   Inl e \<Rightarrow> save_baseline_except e st
                 | Inr b \<Rightarrow>
                     (case file_write io of
                        OpenFails n \<Rightarrow> save_baseline_except (OSError n) st
                      | DumpFails n \<Rightarrow> save_baseline_except (OSError n) (st\<lparr>stored := NotJson\<rparr>)
                      | WriteOk \<Rightarrow>
                          Inr ((say (Printed ''Saved new baseline values'')
                                  (st\<lparr>stored := JsonObject
                                         [''eCO2'' \<mapsto> JInt (fst b), ''TVOC'' \<mapsto> JInt (snd b)]\<rparr>))
                               \<lparr>last_baseline_save := current_time,
                                history := history st @ [BaselineWritten current_time]\<rparr>)))
              else Inr st)
           else Inr st))"

definition update_baseline :: "real \<Rightarrow> save_io \<Rightarrow> sgp30_state \<Rightarrow> sgp30_state completion" where
  "update_baseline current_time io st =
     (if current_time - last_baseline_save st > BASELINE_SAVE_INTERVAL
      then save_baseline io (st\<lparr>history := history st @ [SaveInvoked current_time]\<rparr>)
      else Inr st)"

subsection \<open>Rendering\<close>

definition created_sgp30 :: screen where
  "created_sgp30 =
     \<lparr>palette0 = 0x000000,
      label_text = (\<lambda>l. []),
      label_color = (\<lambda>l. if l = icon_label then 0x00FF00 else 0xFFFFFF)\<rparr>"

definition show_loading_screen_sgp30 :: "scr_write list" where
  "show_loading_screen_sgp30 =
     [SetText co2_label ''Loading...'', SetText co2_value [],
      SetText voc_status [], SetText voc_label [], SetText icon_label []]"

definition update_labels_sgp30 ::
  "int \<Rightarrow> int \<Rightarrow> bool \<Rightarrow> prev_sgp30 \<times> screen \<times> bool
     \<Rightarrow> (prev_sgp30 \<times> screen \<times> bool) \<times> scr_write list" where
  "update_labels_sgp30 co2 voc is_high psl =
     (let prev = fst psl; scr = fst (snd psl);
          voc_is_high = (voc \<ge> VOC_THRESHOLD);
          ws_high =
            (if q_is_high prev \<noteq> Some is_high then
               (let new_color = (if is_high then 0x000000 else 0xFFFFFF) in
                [SetPalette (if is_high then 0xFFFFFF else 0x000000)]
                @ map (\<lambda>l. SetColor l new_color) [co2_label, co2_value, voc_status, voc_label]
                @ [SetText icon_label (if \<not> is_high then GLYPH_SMILE else GLYPH_FROWN),
                   SetColor icon_label (if is_high then 0xFF0000 else 0x00FF00)])
             else []);
          ws_co2 =
            (if q_co2 prev \<noteq> Some co2 then
               [SetText co2_label (''CO2: '' @ (if is_high then ''HIGH'' else ''good'')),
                SetText co2_value (str_int co2)]
             else []);
          ws_voc =
            (if q_voc prev \<noteq> Some voc then
               [SetText voc_status ''VOC:'',
                SetColor voc_status (if \<not> voc_is_high then COLOR_GREEN else COLOR_RED),
                SetText voc_label (str_int voc)]
             else []);
          ws = ws_high @ ws_co2 @ ws_voc
      in ((\<lparr>q_co2 = Some co2, q_voc = Some voc, q_is_high = Some is_high\<rparr>,
           fold perform ws scr,
           (if \<not> is_high \<and> \<not> voc_is_high then False else True)), ws))"

subsection \<open>The update and the main loop\<close>

text \<open>
  What one iteration takes from outside: the clock as \<open>update\<close>,
  \<open>check_warmup_status\<close> and \<open>update_baseline\<close> read it, the two sensor values
  (or the exception a read raises), and the inputs of \<open>save_baseline\<close>.
\<close>

record sgp30_tick =
  clock_update :: real
  clock_status :: real
  sensor_values :: "exn + int \<times> int"
  clock_baseline :: real
  tick_save :: save_io

text \<open>The body of the \<open>try\<close> in \<open>update\<close>.\<close>

definition update_body :: "sgp30_tick \<Rightarrow> warmup_status \<Rightarrow> sgp30_state \<Rightarrow> sgp30_state completion" where
  "update_body inp status st =
     (let current_time = clock_update inp in
      if \<not> warmed_up status then
        (if current_time - sgp_last_animation_time st \<ge> LOADING_INTERVAL then
           (case update_spinner_animation [voc_label]
                   (sgp_animation_frame st mod length SPINNER_CHARS) of
              Inl e \<Rightarrow> Inl (e, st)
            | Inr ws \<Rightarrow>
                Inr (st\<lparr>sgp_display := fold perform ws (sgp_display st),
                        sgp_animation_frame := sgp_animation_frame st + 1,
                        sgp_last_animation_time := current_time\<rparr>))
         else Inr st)
      else
        (case sensor_values inp of
           Inl e \<Rightarrow> Inl (e, st)
         | Inr cv \<Rightarrow>
             (let co2 = fst cv; voc = snd cv;
                  is_high = (co2 \<ge> CO2_THRESHOLD);
                  st1 = say (Printed (''VOC: '' @ str_int voc @ ''ppb''))
                          (say (Printed (''CO2: '' @ str_int co2 @ ''ppm'')) st);
                  r = update_labels_sgp30 co2 voc is_high
                        (sgp_prev_values st1, sgp_display st1, led st1);
                  st2 = st1\<lparr>sgp_prev_values := fst (fst r),
                            sgp_display := fst (snd (fst r)),
                            led := snd (snd (fst r))\<rparr>
              in update_baseline (clock_baseline inp) (tick_save inp) st2)))"

text \<open>
  \<open>update\<close>: the status check stands before the \<open>try\<close>, so its exception leaves
  the function; the handler prints every exception of the body.
\<close>

definition update_sgp30 :: "sgp30_tick \<Rightarrow> sgp30_state \<Rightarrow> sgp30_state completion" where
  "update_sgp30 inp st =
     (case check_warmup_status (clock_status inp) (start_time st) of
        Inl e \<Rightarrow> Inl (e, st)
      | Inr status \<Rightarrow>
          (case update_body inp status st of
             Inl (e, st') \<Rightarrow> Inr (say (PrintedExn ''Error reading sensor: '' e) st')
           | Inr st' \<Rightarrow> Inr st'))"

definition loop_step_sgp30 :: "sgp30_tick \<Rightarrow> sgp30_state \<Rightarrow> (sgp30_state \<times> real) completion" where
  "loop_step_sgp30 inp st =
     (case update_sgp30 inp st of
        Inl x \<Rightarrow> Inl x
      | Inr st' \<Rightarrow>
          Inr (st', if q_co2 (sgp_prev_values st') = None
                    then LOADING_PHASE_SLEEP else UPDATE_INTERVAL))"

fun run_sgp30 :: "sgp30_tick list \<Rightarrow> sgp30_state \<Rightarrow> (sgp30_state \<times> real list) completion" where
  "run_sgp30 [] st = Inr (st, [])"
| "run_sgp30 (inp # inps) st =
     (case loop_step_sgp30 inp st of
        Inl x \<Rightarrow> Inl x
      | Inr r \<Rightarrow>
          (case run_sgp30 inps (fst r) of
             Inl x \<Rightarrow> Inl x
           | Inr rest \<Rightarrow> Inr (fst rest, snd r # snd rest)))"

text \<open>
  The globals as the module declares them (\<open>t0\<close> is the clock at that point,
  \<open>file\<close> what the storage holds), and the state when the loop is entered: the start
  time taken at \<open>t1\<close>, the baseline loaded, the labels created and the loading screen
  shown. The display is created after the baseline is loaded; the two do not touch the
  same variables.
\<close>

definition globals_sgp30 :: "real \<Rightarrow> baseline_file \<Rightarrow> sgp30_state" where
  "globals_sgp30 t0 file =
     \<lparr>start_time = None,
      last_baseline_save = 0,
      sgp_animation_frame = 0,
      sgp_last_animation_time = t0,
      sgp_prev_values = \<lparr>q_co2 = None, q_voc = None, q_is_high = None\<rparr>,
      sgp_display = fold perform show_loading_screen_sgp30 created_sgp30,
      led = False,
      stored = file,
      iaq_baseline = None,
      sgp_printed = [],
      history = []\<rparr>"

definition boot_sgp30 ::
  "real \<Rightarrow> real \<Rightarrow> exn option \<Rightarrow> baseline_file \<Rightarrow> (bool \<times> sgp30_state) completion" where
  "boot_sgp30 t0 t1 iaq_raises file =
     load_baseline iaq_raises (initialize_baseline_tracking t1 (globals_sgp30 t0 file))"

section \<open>Auxiliary definitions for the properties\<close>

text \<open>The state in which a statement ends, whether it completes or raises.\<close>

definition final_state :: "sgp30_state completion \<Rightarrow> sgp30_state" where
  "final_state r = (case r of Inl x \<Rightarrow> snd x | Inr s \<Rightarrow> s)"

text \<open>Reading a decimal numeral back, to show that formatting loses nothing.\<close>

definition digit_val :: "char \<Rightarrow> nat" where
  "digit_val c = of_char c - 48"

definition val_nat :: "string \<Rightarrow> nat" where
  "val_nat s = foldl (\<lambda>a c. 10 * a + digit_val c) 0 s"

text \<open>
  A concrete iteration of the SGP30 loop: every clock reading is \<open>t\<close>, the sensor
  gives \<open>c\<close> and \<open>v\<close> and the baseline values 35187 and 35502, and a write of
  the file ends as \<open>w\<close> says.
\<close>

definition sample_tick :: "real \<Rightarrow> int \<Rightarrow> int \<Rightarrow> write_outcome \<Rightarrow> sgp30_tick" where
  "sample_tick t c v w =
     \<lparr>clock_update = t, clock_status = t, sensor_values = Inr (c, v), clock_baseline = t,
      tick_save = \<lparr>save_clock = t, sensor_baseline = Inr (35187, 35502), file_write = w\<rparr>\<rparr>"

text \<open>The SGP30 state at the first iteration when no baseline file exists.\<close>

definition fresh_sgp30 :: sgp30_state where
  "fresh_sgp30 = initialize_baseline_tracking 0 (globals_sgp30 0 Absent)"

text \<open>
  The clock values of the completed writes in a history, and the property that
  consecutive ones are more than the save interval apart. \<open>rate_limited\<close> is the
  invariant of the loop behind it: the last completed write is the one
  \<open>last_baseline_save\<close> remembers.
\<close>

fun write_times :: "event list \<Rightarrow> real list" where
  "write_times [] = []"
| "write_times (BaselineWritten t # h) = t # write_times h"
| "write_times (SaveInvoked t # h) = write_times h"

fun spaced :: "real list \<Rightarrow> bool" where
  "spaced (a # b # ts) = (b - a > BASELINE_SAVE_INTERVAL \<and> spaced (b # ts))"
| "spaced ts = True"

definition rate_limited :: "sgp30_state \<Rightarrow> bool" where
  "rate_limited st =
     (spaced (write_times (history st))
      \<and> (write_times (history st) = []
         \<or> last (write_times (history st)) = last_baseline_save st))"

text \<open>The state in which a run of the SGP30 loop stands after its iterations.\<close>

definition run_end :: "(sgp30_state \<times> real list) completion \<Rightarrow> sgp30_state" where
  "run_end r = (case r of Inl x \<Rightarrow> snd x | Inr y \<Rightarrow> fst y)"


text \<open>
  The renderer states reached from the loading screen by a first reading of 1200 ppm
  (high): 70 degrees and 40 percent for the SCD40 script, 100 ppb for the SGP30 script.
\<close>

definition first_scd40 :: "prev_scd40 \<times> screen" where
  "first_scd40 = fst (update_labels_scd40 1200 70 40 True (prev_values_scd40, display (boot_scd40 0)))"

definition first_sgp30 :: "prev_sgp30 \<times> screen \<times> bool" where
  "first_sgp30 = fst (update_labels_sgp30 1200 100 True
     (sgp_prev_values fresh_sgp30, sgp_display fresh_sgp30, led fresh_sgp30))"

text \<open>
  The cache mirrors the screen when every attribute that a cached value determines
  holds what that value determines: the cached \<open>is_high\<close> the background, the label
  colours and the icon; the cached CO2 value the headline and the number; the other
  cached values their own labels. A cache entry that is still \<open>None\<close> determines
  nothing. In the SGP30 script the colour of the VOC status label is written by two
  branches, so the cache only bounds it.
\<close>

definition mirrors_scd40 :: "prev_scd40 \<Rightarrow> screen \<Rightarrow> bool" where
  "mirrors_scd40 prev scr =
     ((case p_is_high prev of
         None \<Rightarrow> True
       | Some h \<Rightarrow>
           palette0 scr = (if h then COLOR_WHITE else COLOR_BLACK)
           \<and> label_color scr co2_label = (if h then COLOR_BLACK else COLOR_WHITE)
           \<and> label_color scr co2_value = (if h then COLOR_BLACK else COLOR_WHITE)
           \<and> label_color scr temp_label = (if h then COLOR_BLACK else COLOR_WHITE)
           \<and> label_color scr humid_label = (if h then COLOR_BLACK else COLOR_WHITE)
           \<and> label_text scr icon_label = (if h then GLYPH_FROWN else GLYPH_SMILE)
           \<and> label_color scr icon_label = (if h then COLOR_RED else COLOR_GREEN))
      \<and> (case p_co2 prev of
           None \<Rightarrow> True
         | Some c \<Rightarrow>
             label_text scr co2_label
               = ''CO2: '' @ (if c \<ge> CO2_THRESHOLD then ''HIGH'' else ''good'')
             \<and> label_text scr co2_value = str_int c)
      \<and> (case p_temp prev of
           None \<Rightarrow> True
         | Some t \<Rightarrow> label_text scr temp_label = str_int t @ DEGREE_SIGN @ ''F'')
      \<and> (case p_humidity prev of
           None \<Rightarrow> True
         | Some u \<Rightarrow> label_text scr humid_label = str_int u @ ''%''))"

definition mirrors_sgp30 :: "prev_sgp30 \<Rightarrow> screen \<Rightarrow> bool" where
  "mirrors_sgp30 prev scr =
     ((case q_is_high prev of
         None \<Rightarrow> True
       | Some h \<Rightarrow>
           palette0 scr = (if h then COLOR_WHITE else COLOR_BLACK)
           \<and> label_color scr co2_label = (if h then COLOR_BLACK else COLOR_WHITE)
           \<and> label_color scr co2_value = (if h then COLOR_BLACK else COLOR_WHITE)
           \<and> label_color scr voc_label = (if h then COLOR_BLACK else COLOR_WHITE)
           \<and> label_color scr voc_status
               \<in> {if h then COLOR_BLACK else COLOR_WHITE, COLOR_GREEN, COLOR_RED}
           \<and> label_text scr icon_label = (if h then GLYPH_FROWN else GLYPH_SMILE)
           \<and> label_color scr icon_label = (if h then COLOR_RED else COLOR_GREEN))
      \<and> (case q_co2 prev of
           None \<Rightarrow> True
         | Some c \<Rightarrow>
             label_text scr co2_label
               = ''CO2: '' @ (if c \<ge> CO2_THRESHOLD then ''HIGH'' else ''good'')
             \<and> label_text scr co2_value = str_int c)
      \<and> (case q_voc prev of
           None \<Rightarrow> True
         | Some v \<Rightarrow> label_text scr voc_status = ''VOC:'' \<and> label_text scr voc_label = str_int v))"

text \<open>
  The invariants of the two loops behind the mirror. In the SCD40 script the spinner
  runs only while nothing is cached. In the SGP30 script it runs while the sensor is
  not warmed up, so the invariant remembers that a filled cache means a clock reading
  \<open>lo\<close> past the warm-up time has been seen.
\<close>

definition steady_scd40 :: "scd40_state \<Rightarrow> bool" where
  "steady_scd40 st =
     (mirrors_scd40 (prev_values st) (display st)
      \<and> (p_co2 (prev_values st) = None \<longrightarrow>
            p_temp (prev_values st) = None \<and> p_humidity (prev_values st) = None))"

definition steady_sgp30 :: "real \<Rightarrow> sgp30_state \<Rightarrow> bool" where
  "steady_sgp30 lo st =
     (mirrors_sgp30 (sgp_prev_values st) (sgp_display st)
      \<and> (sgp_prev_values st \<noteq> \<lparr>q_co2 = None, q_voc = None, q_is_high = None\<rparr> \<longrightarrow>
            (case start_time st of None \<Rightarrow> False | Some s \<Rightarrow> lo - s > WARMUP_TIME)))"

section \<open>Basic facts\<close>

lemma final_state_simps [simp]:
  "final_state (Inr s) = s" "final_state (Inl (e, s)) = s"
  by (simp_all add: final_state_def)

lemma say_fields [simp]:
  "start_time (say l st) = start_time st"
  "last_baseline_save (say l st) = last_baseline_save st"
  "sgp_prev_values (say l st) = sgp_prev_values st"
  "sgp_display (say l st) = sgp_display st"
  "led (say l st) = led st"
  "stored (say l st) = stored st"
  "history (say l st) = history st"
  "sgp_printed (say l st) = sgp_printed st @ [l]"
  "iaq_baseline (say l st) = iaq_baseline st"
  "sgp_animation_frame (say l st) = sgp_animation_frame st"
  "sgp_last_animation_time (say l st) = sgp_last_animation_time st"
  by (simp_all add: say_def)

subsection \<open>Decimal formatting is injective\<close>

lemma digit_val_dec_digit: "d < 10 \<Longrightarrow> digit_val (dec_digit d) = d"
proof -
  assume "d < 10"
  then have "d \<in> {0, 1, 2, 3, 4, 5, 6, 7, 8, 9}" by auto
  then show ?thesis by (auto simp add: digit_val_def dec_digit_def)
qed

lemma dec_digit_not_minus: "d < 10 \<Longrightarrow> dec_digit d \<noteq> CHR ''-''"
proof -
  assume "d < 10"
  then have "d \<in> {0, 1, 2, 3, 4, 5, 6, 7, 8, 9}" by auto
  then show ?thesis by (auto simp add: dec_digit_def)
qed

lemma val_nat_str_nat: "val_nat (str_nat n) = n"
proof (induction n rule: str_nat.induct)
  case (1 n)
  show ?case
  proof (cases "n < 10")
    case True
    then show ?thesis
      by (subst str_nat.simps) (simp add: val_nat_def digit_val_dec_digit)
  next
    case False
    with 1 have "val_nat (str_nat (n div 10)) = n div 10" by simp
    with False show ?thesis
      by (subst str_nat.simps) (simp add: val_nat_def digit_val_dec_digit)
  qed
qed

lemma str_nat_inj: "str_nat a = str_nat b \<Longrightarrow> a = b"
  by (metis val_nat_str_nat)

lemma str_nat_no_minus: "CHR ''-'' \<notin> set (str_nat n)"
proof (induction n rule: str_nat.induct)
  case (1 n)
  show ?case
  proof (cases "n < 10")
    case True
    then show ?thesis
      using dec_digit_not_minus [of n]
      by (subst str_nat.simps) auto
  next
    case False
    with 1 have "CHR ''-'' \<notin> set (str_nat (n div 10))" by simp
    with False show ?thesis
      using dec_digit_not_minus [of "n mod 10"]
      by (subst str_nat.simps) auto
  qed
qed

lemma str_int_inj: "str_int a = str_int b \<Longrightarrow> a = b"
proof -
  assume eq: "str_int a = str_int b"
  consider "a < 0" "b < 0" | "a < 0" "0 \<le> b" | "0 \<le> a" "b < 0" | "0 \<le> a" "0 \<le> b"
    by linarith
  then show "a = b"
  proof cases
    case 1
    with eq have "str_nat (nat (- a)) = str_nat (nat (- b))" by (simp add: str_int_def)
    then have "nat (- a) = nat (- b)" by (rule str_nat_inj)
    with 1 show ?thesis by simp
  next
    case 2
    with eq have "CHR ''-'' # str_nat (nat (- a)) = str_nat (nat b)" by (simp add: str_int_def)
    then have "CHR ''-'' \<in> set (str_nat (nat b))" by (metis list.set_intros(1))
    then show ?thesis using str_nat_no_minus by blast
  next
    case 3
    with eq have "str_nat (nat a) = CHR ''-'' # str_nat (nat (- b))" by (simp add: str_int_def)
    then have "CHR ''-'' \<in> set (str_nat (nat a))" by (metis list.set_intros(1))
    then show ?thesis using str_nat_no_minus by blast
  next
    case 4
    with eq have "str_nat (nat a) = str_nat (nat b)" by (simp add: str_int_def)
    then have "nat a = nat b" by (rule str_nat_inj)
    with 4 show ?thesis by simp
  qed
qed

subsection \<open>What the baseline store leaves alone\<close>

lemma save_baseline_except_frame:
  "sgp_prev_values (final_state (save_baseline_except e st)) = sgp_prev_values st
   \<and> sgp_display (final_state (save_baseline_except e st)) = sgp_display st
   \<and> led (final_state (save_baseline_except e st)) = led st
   \<and> start_time (final_state (save_baseline_except e st)) = start_time st"
  by (cases e) (simp_all add: save_baseline_except_def)

lemma save_baseline_frame:
  "sgp_prev_values (final_state (save_baseline io st)) = sgp_prev_values st
   \<and> sgp_display (final_state (save_baseline io st)) = sgp_display st
   \<and> led (final_state (save_baseline io st)) = led st
   \<and> start_time (final_state (save_baseline io st)) = start_time st"
  by (simp add: save_baseline_def Let_def save_baseline_except_frame
      split: option.split sum.split write_outcome.split)

lemma update_baseline_frame:
  "sgp_prev_values (final_state (update_baseline t io st)) = sgp_prev_values st
   \<and> sgp_display (final_state (update_baseline t io st)) = sgp_display st
   \<and> led (final_state (update_baseline t io st)) = led st
   \<and> start_time (final_state (update_baseline t io st)) = start_time st"
  using save_baseline_frame [of io "st\<lparr>history := history st @ [SaveInvoked t]\<rparr>"]
  by (simp add: update_baseline_def)

section \<open>Threshold classification of a reading\<close>

text \<open>
  C10: a reading is high exactly when its CO2 value is at least 1000, in both scripts
  (the value the renderer is called with is the one it caches); in the SGP30 script the
  VOC value counts as high exactly when it is at least 250, which shows in the LED
  (on when either is high) and in the colour of the VOC status label when the VOC
  value changed. A value equal to a threshold is high.
\<close>

theorem high_classification:
  assumes "warmed_up status" and "sensor_values inp = Inr (c, v)"
  shows "p_is_high (prev_values (update_scd40 now (Sample c t h) st40)) = Some (1000 \<le> c)
     \<and> q_is_high (sgp_prev_values (final_state (update_body inp status st))) = Some (1000 \<le> c)
     \<and> led (final_state (update_body inp status st)) = (1000 \<le> c \<or> 250 \<le> v)
     \<and> (q_voc (sgp_prev_values st) \<noteq> Some v \<longrightarrow>
          label_color (sgp_display (final_state (update_body inp status st))) voc_status
            = (if 250 \<le> v then COLOR_RED else COLOR_GREEN))"
  using assms
  by (auto simp add: update_scd40_def update_labels_scd40_def Let_def CO2_THRESHOLD_def
      update_body_def update_baseline_frame update_labels_sgp30_def VOC_THRESHOLD_def)

theorem high_classification_witness:
  "p_is_high (prev_values (update_scd40 0 (Sample 1000 20 40) (boot_scd40 0))) = Some True
   \<and> q_is_high (sgp_prev_values (final_state (update_body (sample_tick 20 1000 250 WriteOk)
         \<lparr>warmed_up = True, fully_calibrated = False, elapsed_time = 20\<rparr> fresh_sgp30)))
       = Some True
   \<and> led (final_state (update_body (sample_tick 20 1000 250 WriteOk)
         \<lparr>warmed_up = True, fully_calibrated = False, elapsed_time = 20\<rparr> fresh_sgp30)) = True
   \<and> label_color (sgp_display (final_state (update_body (sample_tick 20 1000 250 WriteOk)
         \<lparr>warmed_up = True, fully_calibrated = False, elapsed_time = 20\<rparr> fresh_sgp30)))
       voc_status = COLOR_RED"
  using high_classification [of "\<lparr>warmed_up = True, fully_calibrated = False, elapsed_time = 20\<rparr>"
      "sample_tick 20 1000 250 WriteOk" 1000 250 0 20 40 "boot_scd40 0" fresh_sgp30]
  by (simp add: sample_tick_def fresh_sgp30_def initialize_baseline_tracking_def globals_sgp30_def)

section \<open>Baseline store\<close>

text \<open>
  C4: a call of \<open>save_baseline\<close> at a time when the elapsed time since the start does
  not exceed the calibration threshold of 12 hours completes without changing anything:
  the state after it is the state before it, the stored file included, so a load after it
  gives what a load before it gives.
\<close>

theorem save_before_calibration_noop:
  assumes "start_time st = Some s" and "save_clock io - s \<le> CALIBRATION_TIME"
  shows "save_baseline io st = Inr st
     \<and> load_baseline iaq (final_state (save_baseline io st)) = load_baseline iaq st"
  using assms by (simp add: save_baseline_def Let_def)

theorem save_before_calibration_noop_witness:
  "save_baseline \<lparr>save_clock = 43200, sensor_baseline = Inr (35187, 35502), file_write = WriteOk\<rparr>
     fresh_sgp30 = Inr fresh_sgp30
   \<and> load_baseline None (final_state (save_baseline
        \<lparr>save_clock = 43200, sensor_baseline = Inr (35187, 35502), file_write = WriteOk\<rparr>
        fresh_sgp30))
     = Inr (False, say (Printed ''No stored baseline found - starting fresh calibration'') fresh_sgp30)"
  using save_before_calibration_noop [of fresh_sgp30 0
      "\<lparr>save_clock = 43200, sensor_baseline = Inr (35187, 35502), file_write = WriteOk\<rparr>" None]
  by (simp add: fresh_sgp30_def initialize_baseline_tracking_def globals_sgp30_def
      CALIBRATION_TIME_def load_baseline_def load_baseline_except_def)

text \<open>
  C3 (defect of the code): the handler of \<open>load_baseline\<close> takes \<open>OSError\<close> and
  \<open>KeyError\<close>, so it recovers from an absent file and from an object with a missing
  field, but not from contents that are malformed in another way. A write that fails in
  \<open>json.dump\<close> (here with errno 28) leaves the truncated file behind; at the next
  start \<open>json.load\<close> raises \<open>ValueError\<close>, which leaves \<open>load_baseline\<close>, called
  outside any \<open>try\<close>. JSON that is not an object leaves it with \<open>TypeError\<close>.
\<close>

theorem load_after_failed_save_raises:
  "stored (final_state (save_baseline
       \<lparr>save_clock = 50000, sensor_baseline = Inr (35187, 35502), file_write = DumpFails 28\<rparr>
       fresh_sgp30)) = NotJson
   \<and> map_sum fst fst (load_baseline None (final_state (save_baseline
       \<lparr>save_clock = 50000, sensor_baseline = Inr (35187, 35502), file_write = DumpFails 28\<rparr>
       fresh_sgp30))) = Inl ValueError
   \<and> map_sum fst fst (boot_sgp30 0 0 None NotJson) = Inl ValueError
   \<and> map_sum fst fst (boot_sgp30 0 0 None JsonNonObject) = Inl TypeError"
  by (simp add: save_baseline_def save_baseline_except_def Let_def fresh_sgp30_def
      initialize_baseline_tracking_def globals_sgp30_def CALIBRATION_TIME_def
      load_baseline_def load_baseline_except_def boot_sgp30_def say_def)

text \<open>
  What the handler does cover: when the file is absent, or opening or reading it fails
  with an \<open>OSError\<close>, or it holds a JSON object that lacks \<open>eCO2\<close> or \<open>TVOC\<close>,
  then \<open>load_baseline\<close> returns \<open>False\<close>, prints the one line that no stored
  baseline was found, changes nothing else, and raises nothing.
\<close>

lemma load_absent_or_incomplete:
  assumes "stored st = Absent \<or> (\<exists>n. stored st = Unreadable n)
           \<or> (\<exists>m. stored st = JsonObject m \<and> (m ''eCO2'' = None \<or> m ''TVOC'' = None))"
  shows "load_baseline iaq st
         = Inr (False, say (Printed ''No stored baseline found - starting fresh calibration'') st)"
  using assms
  by (auto simp add: load_baseline_def load_baseline_except_def split: option.split)

lemma load_absent_or_incomplete_example:
  "boot_sgp30 0 0 None Absent
     = Inr (False, say (Printed ''No stored baseline found - starting fresh calibration'')
                     (initialize_baseline_tracking 0 (globals_sgp30 0 Absent)))
   \<and> boot_sgp30 0 0 None (JsonObject [''eCO2'' \<mapsto> JInt 35187])
     = Inr (False, say (Printed ''No stored baseline found - starting fresh calibration'')
                     (initialize_baseline_tracking 0
                        (globals_sgp30 0 (JsonObject [''eCO2'' \<mapsto> JInt 35187]))))"
  using load_absent_or_incomplete [of "initialize_baseline_tracking 0 (globals_sgp30 0 Absent)" None]
    load_absent_or_incomplete [of "initialize_baseline_tracking 0
        (globals_sgp30 0 (JsonObject [''eCO2'' \<mapsto> JInt 35187]))" None]
  by (simp add: boot_sgp30_def initialize_baseline_tracking_def globals_sgp30_def)

section \<open>The main loops keep running\<close>

lemma update_body_start_time:
  "start_time (final_state (update_body inp status st)) = start_time st"
  by (simp add: update_body_def Let_def update_baseline_frame update_spinner_animation_def
      SPINNER_CHARS_def split: sum.split)

lemma update_body_keeps_co2:
  "q_co2 (sgp_prev_values st) \<noteq> None
   \<Longrightarrow> q_co2 (sgp_prev_values (final_state (update_body inp status st))) \<noteq> None"
  by (simp add: update_body_def Let_def update_baseline_frame update_spinner_animation_def
      SPINNER_CHARS_def update_labels_sgp30_def split: sum.split)

lemma update_sgp30_completes:
  assumes "start_time st = Some s"
  shows "\<exists>st'. update_sgp30 inp st = Inr st' \<and> start_time st' = Some s
           \<and> (q_co2 (sgp_prev_values st) \<noteq> None \<longrightarrow> q_co2 (sgp_prev_values st') \<noteq> None)"
proof -
  define status where "status = \<lparr>warmed_up = clock_status inp - s > WARMUP_TIME,
      fully_calibrated = clock_status inp - s > CALIBRATION_TIME,
      elapsed_time = clock_status inp - s\<rparr>"
  have chk: "check_warmup_status (clock_status inp) (start_time st) = Inr status"
    using assms by (simp add: check_warmup_status_def status_def Let_def)
  show ?thesis
  proof (cases "update_body inp status st")
    case (Inl x)
    obtain e st1 where x: "x = (e, st1)" by (cases x)
    have "final_state (update_body inp status st) = st1" using Inl x by simp
    then have "start_time st1 = Some s"
      and "q_co2 (sgp_prev_values st) \<noteq> None \<longrightarrow> q_co2 (sgp_prev_values st1) \<noteq> None"
      using update_body_start_time [of inp status st] update_body_keeps_co2 [of st inp status] assms
      by auto
    then show ?thesis using chk Inl x by (simp add: update_sgp30_def)
  next
    case (Inr st1)
    have "final_state (update_body inp status st) = st1" using Inr by simp
    then have "start_time st1 = Some s"
      and "q_co2 (sgp_prev_values st) \<noteq> None \<longrightarrow> q_co2 (sgp_prev_values st1) \<noteq> None"
      using update_body_start_time [of inp status st] update_body_keeps_co2 [of st inp status] assms
      by auto
    then show ?thesis using chk Inr by (simp add: update_sgp30_def)
  qed
qed

lemma run_sgp30_completes:
  "start_time st = Some s
   \<Longrightarrow> \<exists>r. run_sgp30 inps st = Inr r \<and> start_time (fst r) = Some s
            \<and> length (snd r) = length inps"
proof (induction inps arbitrary: st)
  case Nil
  then show ?case by simp
next
  case (Cons inp inps)
  from update_sgp30_completes [OF Cons.prems, of inp]
  obtain st' where st': "update_sgp30 inp st = Inr st'" "start_time st' = Some s" by blast
  from Cons.IH [OF st'(2)]
  obtain r where r: "run_sgp30 inps st' = Inr r" "start_time (fst r) = Some s"
    "length (snd r) = length inps" by blast
  show ?case using st' r by (simp add: loop_step_sgp30_def)
qed

lemma run_sgp30_steady:
  "start_time st = Some s \<Longrightarrow> q_co2 (sgp_prev_values st) \<noteq> None
   \<Longrightarrow> \<exists>r. run_sgp30 inps st = Inr r \<and> q_co2 (sgp_prev_values (fst r)) \<noteq> None
            \<and> snd r = replicate (length inps) UPDATE_INTERVAL"
proof (induction inps arbitrary: st)
  case Nil
  then show ?case by simp
next
  case (Cons inp inps)
  from update_sgp30_completes [OF Cons.prems(1), of inp] Cons.prems(2)
  obtain st' where st': "update_sgp30 inp st = Inr st'" "start_time st' = Some s"
    "q_co2 (sgp_prev_values st') \<noteq> None" by blast
  from Cons.IH [OF st'(2) st'(3)]
  obtain r where r: "run_sgp30 inps st' = Inr r" "q_co2 (sgp_prev_values (fst r)) \<noteq> None"
    "snd r = replicate (length inps) UPDATE_INTERVAL" by blast
  show ?case using st' r by (auto simp add: loop_step_sgp30_def)
qed

lemma update_scd40_keeps_co2:
  "p_co2 (prev_values st) \<noteq> None \<Longrightarrow> p_co2 (prev_values (update_scd40 now poll st)) \<noteq> None"
  by (cases poll) (auto simp add: update_scd40_def update_labels_scd40_def Let_def)

lemma run_scd40_steady:
  "p_co2 (prev_values st) \<noteq> None
   \<Longrightarrow> p_co2 (prev_values (fst (run_scd40 inps st))) \<noteq> None
       \<and> snd (run_scd40 inps st) = replicate (length inps) UPDATE_INTERVAL"
proof (induction inps arbitrary: st)
  case Nil
  then show ?case by simp
next
  case (Cons inp inps)
  have "p_co2 (prev_values (update_scd40 (fst inp) (snd inp) st)) \<noteq> None"
    using Cons.prems by (rule update_scd40_keeps_co2)
  then show ?case using Cons.IH [of "update_scd40 (fst inp) (snd inp) st"]
    by (auto simp add: loop_step_scd40_def Let_def)
qed

text \<open>
  C9: once a reading has been cached (\<open>prev_values["co2"]\<close> is not \<open>None\<close>), the
  main loop of either script never returns to the loading state: after any number of
  further iterations, whatever the clock and the sensor do, the cached CO2 value is still
  not \<open>None\<close> and every one of these iterations slept \<open>UPDATE_INTERVAL\<close>. For the
  SGP30 loop, whose status check can raise while no start time is set, the iterations
  are shown to complete.
\<close>

theorem loading_to_steady_permanent:
  assumes "p_co2 (prev_values st40) \<noteq> None"
    and "q_co2 (sgp_prev_values st) \<noteq> None" and "start_time st = Some s"
  shows "p_co2 (prev_values (fst (run_scd40 inps40 st40))) \<noteq> None
     \<and> snd (run_scd40 inps40 st40) = replicate (length inps40) UPDATE_INTERVAL
     \<and> (\<exists>r. run_sgp30 inps st = Inr r \<and> q_co2 (sgp_prev_values (fst r)) \<noteq> None
            \<and> snd r = replicate (length inps) UPDATE_INTERVAL)"
  using run_scd40_steady [OF assms(1), of inps40] run_sgp30_steady [OF assms(3) assms(2), of inps]
  by blast

theorem loading_to_steady_permanent_witness:
  "p_co2 (prev_values (update_scd40 0 (Sample 800 20 40) (boot_scd40 0))) \<noteq> None
   \<and> q_co2 (sgp_prev_values (final_state (update_sgp30 (sample_tick 20 800 100 WriteOk) fresh_sgp30)))
       \<noteq> None
   \<and> snd (run_scd40 [(4, NotReady), (8, ReadFails (OSError 5)), (12, Sample 1200 21 40)]
            (update_scd40 0 (Sample 800 20 40) (boot_scd40 0)))
       = replicate (length [(4::real, NotReady), (8, ReadFails (OSError 5)), (12, Sample 1200 21 40)])
           UPDATE_INTERVAL
   \<and> (\<exists>r. run_sgp30 [sample_tick 24 1200 100 WriteOk,
                      (sample_tick 28 1200 100 WriteOk)\<lparr>sensor_values := Inl (OSError 5)\<rparr>]
              (final_state (update_sgp30 (sample_tick 20 800 100 WriteOk) fresh_sgp30)) = Inr r
          \<and> snd r = replicate (length [sample_tick 24 1200 100 WriteOk,
                      (sample_tick 28 1200 100 WriteOk)\<lparr>sensor_values := Inl (OSError 5)\<rparr>])
                    UPDATE_INTERVAL)"
proof -
  have a: "p_co2 (prev_values (update_scd40 0 (Sample 800 20 40) (boot_scd40 0))) \<noteq> None"
    by (simp add: update_scd40_def update_labels_scd40_def Let_def)
  have u: "update_sgp30 (sample_tick 20 800 100 WriteOk) fresh_sgp30
           = Inr (final_state (update_sgp30 (sample_tick 20 800 100 WriteOk) fresh_sgp30))"
    by (simp add: update_sgp30_def check_warmup_status_def sample_tick_def fresh_sgp30_def
        initialize_baseline_tracking_def globals_sgp30_def Let_def WARMUP_TIME_def
        CALIBRATION_TIME_def update_body_def update_baseline_def BASELINE_SAVE_INTERVAL_def)
  have b: "q_co2 (sgp_prev_values (final_state (update_sgp30 (sample_tick 20 800 100 WriteOk) fresh_sgp30)))
       \<noteq> None"
    by (simp add: update_sgp30_def check_warmup_status_def sample_tick_def fresh_sgp30_def
        initialize_baseline_tracking_def globals_sgp30_def Let_def WARMUP_TIME_def
        CALIBRATION_TIME_def update_body_def update_baseline_def BASELINE_SAVE_INTERVAL_def
        update_labels_sgp30_def)
  have c: "start_time (final_state (update_sgp30 (sample_tick 20 800 100 WriteOk) fresh_sgp30)) = Some 0"
    by (simp add: update_sgp30_def check_warmup_status_def sample_tick_def fresh_sgp30_def
        initialize_baseline_tracking_def globals_sgp30_def Let_def WARMUP_TIME_def
        CALIBRATION_TIME_def update_body_def update_baseline_def BASELINE_SAVE_INTERVAL_def)
  show ?thesis
    using a b loading_to_steady_permanent [OF a b c,
        of "[(4, NotReady), (8, ReadFails (OSError 5)), (12, Sample 1200 21 40)]"
           "[sample_tick 24 1200 100 WriteOk,
             (sample_tick 28 1200 100 WriteOk)\<lparr>sensor_values := Inl (OSError 5)\<rparr>]"]
    by blast
qed

section \<open>Rate of baseline saves\<close>

lemma write_times_append:
  "write_times (h @ k) = write_times h @ write_times k"
  by (induction h rule: write_times.induct) simp_all

lemma spaced_snoc:
  "spaced (ts @ [t]) = (spaced ts \<and> (ts = [] \<or> t - last ts > BASELINE_SAVE_INTERVAL))"
  by (induction ts rule: spaced.induct) auto

lemma save_baseline_except_rate:
  "rate_limited st' \<Longrightarrow> history st' = history st
   \<Longrightarrow> last_baseline_save st' = last_baseline_save st
   \<Longrightarrow> rate_limited (final_state (save_baseline_except e st))"
  by (cases e) (simp_all add: save_baseline_except_def rate_limited_def)

lemma save_baseline_rate:
  assumes "rate_limited st" and "t - last_baseline_save st > BASELINE_SAVE_INTERVAL"
    and "t \<le> save_clock io"
  shows "rate_limited (final_state (save_baseline io (st\<lparr>history := history st @ [SaveInvoked t]\<rparr>)))"
proof -
  let ?st = "st\<lparr>history := history st @ [SaveInvoked t]\<rparr>"
  have r: "rate_limited ?st"
    using assms(1) by (simp add: rate_limited_def write_times_append)
  have x: "\<And>e. rate_limited (final_state (save_baseline_except e ?st))"
    using r by (rule save_baseline_except_rate) simp_all
  have y: "\<And>e. rate_limited (final_state (save_baseline_except e (?st\<lparr>stored := NotJson\<rparr>)))"
    using r by (intro save_baseline_except_rate [of ?st]) (simp_all add: rate_limited_def)
  have z: "rate_limited
     ((say (Printed ''Saved new baseline values'') (?st\<lparr>stored := f\<rparr>))
        \<lparr>last_baseline_save := save_clock io,
         history := history ?st @ [BaselineWritten (save_clock io)]\<rparr>)" for f
    using assms by (auto simp add: rate_limited_def write_times_append spaced_snoc)
  show ?thesis
    using r x y z
    by (simp add: save_baseline_def Let_def split: option.split sum.split write_outcome.split)
qed


lemma update_baseline_rate:
  assumes "rate_limited st" and "t \<le> save_clock io"
  shows "rate_limited (final_state (update_baseline t io st))"
  using assms save_baseline_rate [of st t io]
  by (simp add: update_baseline_def)

lemma rate_limited_updates [simp]:
  "rate_limited (st\<lparr>sgp_display := d\<rparr>) = rate_limited st"
  "rate_limited (st\<lparr>sgp_animation_frame := n\<rparr>) = rate_limited st"
  "rate_limited (st\<lparr>sgp_last_animation_time := t\<rparr>) = rate_limited st"
  "rate_limited (st\<lparr>sgp_prev_values := p\<rparr>) = rate_limited st"
  "rate_limited (st\<lparr>led := b\<rparr>) = rate_limited st"
  "rate_limited (say l st) = rate_limited st"
  by (simp_all add: rate_limited_def)

lemma update_body_rate:
  assumes "rate_limited st" and "clock_baseline inp \<le> save_clock (tick_save inp)"
  shows "rate_limited (final_state (update_body inp status st))"
proof -
  have "rate_limited (final_state (update_baseline (clock_baseline inp) (tick_save inp) st2))"
    if "rate_limited st2" for st2
    using that assms(2) by (rule update_baseline_rate)
  then show ?thesis
    using assms(1)
    by (simp add: update_body_def Let_def update_spinner_animation_def SPINNER_CHARS_def
        split: sum.split)
qed

lemma update_sgp30_rate:
  assumes "rate_limited st" and "clock_baseline inp \<le> save_clock (tick_save inp)"
  shows "rate_limited (final_state (update_sgp30 inp st))"
proof (cases "check_warmup_status (clock_status inp) (start_time st)")
  case (Inl e)
  then show ?thesis using assms(1) by (simp add: update_sgp30_def)
next
  case (Inr status)
  have b: "rate_limited (final_state (update_body inp status st))"
    using assms by (rule update_body_rate)
  show ?thesis
  proof (cases "update_body inp status st")
    case (Inl x)
    then show ?thesis using b Inr
      by (cases x) (simp add: update_sgp30_def)
  next
    case (Inr st')
    then show ?thesis using b \<open>check_warmup_status (clock_status inp) (start_time st) = Inr status\<close>
      by (simp add: update_sgp30_def)
  qed
qed

lemma run_end_step:
  "update_sgp30 inp st = Inr st' \<Longrightarrow> run_end (run_sgp30 (inp # inps) st) = run_end (run_sgp30 inps st')"
  by (cases "run_sgp30 inps st'") (simp_all add: loop_step_sgp30_def run_end_def)

lemma run_end_raise:
  "update_sgp30 inp st = Inl (e, st') \<Longrightarrow> run_end (run_sgp30 (inp # inps) st) = st'"
  by (simp add: loop_step_sgp30_def run_end_def)

lemma run_sgp30_rate:
  "rate_limited st \<Longrightarrow> \<forall>inp \<in> set inps. clock_baseline inp \<le> save_clock (tick_save inp)
   \<Longrightarrow> rate_limited (run_end (run_sgp30 inps st))"
proof (induction inps arbitrary: st)
  case Nil
  then show ?case by (simp add: run_end_def)
next
  case (Cons inp inps)
  have u: "rate_limited (final_state (update_sgp30 inp st))"
    using Cons.prems by (intro update_sgp30_rate) simp_all
  show ?case
  proof (cases "update_sgp30 inp st")
    case (Inl x)
    obtain e st' where "x = (e, st')" by (cases x)
    with Inl u show ?thesis using run_end_raise [of inp st e st' inps] by (simp del: run_sgp30.simps)
  next
    case (Inr st')
    then have "rate_limited st'" using u by simp
    then have "rate_limited (run_end (run_sgp30 inps st'))"
      using Cons.IH [of st'] Cons.prems(2) by simp
    then show ?thesis using run_end_step [OF Inr, of inps] by (simp del: run_sgp30.simps)
  qed
qed

text \<open>
  C5 (amended): in every run of the main loop that starts with an empty history, any two
  consecutive completed writes of the baseline file are more than
  \<open>BASELINE_SAVE_INTERVAL\<close> apart, provided the clock read in \<open>save_baseline\<close> is
  not before the one read in \<open>update_baseline\<close> just before it.
\<close>

theorem baseline_writes_spaced:
  assumes "history st = []"
    and "\<forall>inp \<in> set inps. clock_baseline inp \<le> save_clock (tick_save inp)"
  shows "spaced (write_times (history (run_end (run_sgp30 inps st))))"
proof -
  have "rate_limited st" using assms(1) by (simp add: rate_limited_def)
  then have "rate_limited (run_end (run_sgp30 inps st))"
    using assms(2) by (rule run_sgp30_rate)
  then show ?thesis by (simp add: rate_limited_def)
qed


lemmas sgp30_eval =
  run_end_def loop_step_sgp30_def update_sgp30_def check_warmup_status_def update_body_def
  update_labels_sgp30_def update_baseline_def save_baseline_def save_baseline_except_def
  sample_tick_def fresh_sgp30_def initialize_baseline_tracking_def globals_sgp30_def say_def
  Let_def WARMUP_TIME_def CALIBRATION_TIME_def BASELINE_SAVE_INTERVAL_def

text \<open>
  C5 (as stated, refuted): \<open>update_baseline\<close> compares the clock with the time of the
  last completed save, and \<open>save_baseline\<close> moves that time only when it has written
  the file. An hour after power-up and before calibration is complete (or for as long
  as writes fail) it therefore calls \<open>save_baseline\<close> on every iteration: here twice,
  4 seconds apart.
\<close>

theorem save_invoked_every_tick_counterexample:
  "history (run_end (run_sgp30 [sample_tick 4000 800 100 WriteOk, sample_tick 4004 800 100 WriteOk]
                      fresh_sgp30))
     = [SaveInvoked 4000, SaveInvoked 4004]
   \<and> (4004::real) - 4000 < BASELINE_SAVE_INTERVAL"
  by (simp add: sgp30_eval)

theorem baseline_writes_spaced_witness:
  "write_times (history (run_end (run_sgp30
       [sample_tick 50000 800 100 WriteOk, sample_tick 50004 800 100 WriteOk,
        sample_tick 53601 800 100 WriteOk] fresh_sgp30)))
     = [50000, 53601]
   \<and> spaced (write_times (history (run_end (run_sgp30
       [sample_tick 50000 800 100 WriteOk, sample_tick 50004 800 100 WriteOk,
        sample_tick 53601 800 100 WriteOk] fresh_sgp30))))"
proof -
  have h: "history fresh_sgp30 = []"
    by (simp add: fresh_sgp30_def initialize_baseline_tracking_def globals_sgp30_def)
  have c: "\<forall>inp \<in> set [sample_tick 50000 800 100 WriteOk, sample_tick 50004 800 100 WriteOk,
        sample_tick 53601 800 100 WriteOk]. clock_baseline inp \<le> save_clock (tick_save inp)"
    by (simp add: sample_tick_def)
  have w: "write_times (history (run_end (run_sgp30
       [sample_tick 50000 800 100 WriteOk, sample_tick 50004 800 100 WriteOk,
        sample_tick 53601 800 100 WriteOk] fresh_sgp30)))
     = [50000, 53601]"
    by (simp add: sgp30_eval)
  show ?thesis using w baseline_writes_spaced [OF h c] by blast
qed

section \<open>Rendering\<close>

lemma update_labels_scd40_palette:
  "palette0 (snd (fst (update_labels_scd40 co2 temp humidity is_high (prev, scr))))
     = (if p_is_high prev \<noteq> Some is_high then (if is_high then 0xFFFFFF else 0x000000)
        else palette0 scr)"
  by (simp add: update_labels_scd40_def Let_def)

lemma update_labels_scd40_color:
  "label_color (snd (fst (update_labels_scd40 co2 temp humidity is_high (prev, scr)))) l
     = (if p_is_high prev \<noteq> Some is_high then
          (if l \<in> {co2_label, co2_value, temp_label, humid_label}
           then (if is_high then 0x000000 else 0xFFFFFF)
           else if l = icon_label then (if is_high then 0xFF0000 else 0x00FF00)
           else label_color scr l)
        else label_color scr l)"
  by (simp add: update_labels_scd40_def Let_def)

lemma update_labels_scd40_text:
  "label_text (snd (fst (update_labels_scd40 co2 temp humidity is_high (prev, scr)))) l
     = (if l = icon_label \<and> p_is_high prev \<noteq> Some is_high
          then (if is_high then GLYPH_FROWN else GLYPH_SMILE)
        else if l = co2_label \<and> p_co2 prev \<noteq> Some co2
          then ''CO2: '' @ (if is_high then ''HIGH'' else ''good'')
        else if l = co2_value \<and> p_co2 prev \<noteq> Some co2 then str_int co2
        else if l = temp_label \<and> p_temp prev \<noteq> Some temp then str_int temp @ DEGREE_SIGN @ ''F''
        else if l = humid_label \<and> p_humidity prev \<noteq> Some humidity then str_int humidity @ ''%''
        else label_text scr l)"
  by (simp add: update_labels_scd40_def Let_def)

lemma update_labels_sgp30_palette:
  "palette0 (fst (snd (fst (update_labels_sgp30 co2 voc is_high (prev, scr, l0)))))
     = (if q_is_high prev \<noteq> Some is_high then (if is_high then 0xFFFFFF else 0x000000)
        else palette0 scr)"
  by (simp add: update_labels_sgp30_def Let_def)

lemma update_labels_sgp30_color:
  "label_color (fst (snd (fst (update_labels_sgp30 co2 voc is_high (prev, scr, l0))))) l
     = (if l = voc_status \<and> q_voc prev \<noteq> Some voc
          then (if voc \<ge> VOC_THRESHOLD then COLOR_RED else COLOR_GREEN)
        else if q_is_high prev \<noteq> Some is_high then
          (if l \<in> {co2_label, co2_value, voc_status, voc_label}
           then (if is_high then 0x000000 else 0xFFFFFF)
           else if l = icon_label then (if is_high then 0xFF0000 else 0x00FF00)
           else label_color scr l)
        else label_color scr l)"
  by (simp add: update_labels_sgp30_def Let_def)

lemma update_labels_sgp30_text:
  "label_text (fst (snd (fst (update_labels_sgp30 co2 voc is_high (prev, scr, l0))))) l
     = (if l = icon_label \<and> q_is_high prev \<noteq> Some is_high
          then (if is_high then GLYPH_FROWN else GLYPH_SMILE)
        else if l = co2_label \<and> q_co2 prev \<noteq> Some co2
          then ''CO2: '' @ (if is_high then ''HIGH'' else ''good'')
        else if l = co2_value \<and> q_co2 prev \<noteq> Some co2 then str_int co2
        else if l = voc_status \<and> q_voc prev \<noteq> Some voc then ''VOC:''
        else if l = voc_label \<and> q_voc prev \<noteq> Some voc then str_int voc
        else label_text scr l)"
  by (simp add: update_labels_sgp30_def Let_def)

text \<open>
  C7 (as stated, refuted): the claim gives the normal palette (reading not high) a white
  background with dark text. The code does the opposite: after a high reading, a
  reading that is not high sets the background to black and the text to white.
\<close>

theorem high_flip_counterexample:
  "p_is_high (fst (fst (update_labels_scd40 1200 70 40 True
        (prev_values_scd40, display (boot_scd40 0))))) \<noteq> Some False
   \<and> palette0 (snd (fst (update_labels_scd40 800 70 40 False
        (fst (update_labels_scd40 1200 70 40 True (prev_values_scd40, display (boot_scd40 0)))))))
       = COLOR_BLACK
   \<and> label_color (snd (fst (update_labels_scd40 800 70 40 False
        (fst (update_labels_scd40 1200 70 40 True (prev_values_scd40, display (boot_scd40 0)))))))
        co2_value = COLOR_WHITE"
  by (simp add: update_labels_scd40_def Let_def prev_values_scd40_def COLOR_BLACK_def
      COLOR_WHITE_def)

text \<open>
  C7 (amended): on every render call in which \<open>is_high\<close> differs from the cached
  value, the renderer sets the background to black and the text labels to white when the
  reading is not high, and the background to white and the text labels to black when it
  is high; the icon becomes the green smile glyph when not high and the red frown glyph
  when high. In the SGP30 script the VOC status label gets that text colour only when
  the VOC value is unchanged; otherwise the same call colours it green or red by the
  VOC threshold.
\<close>

theorem high_flip_palette:
  assumes "p_is_high prev \<noteq> Some is_high" and "q_is_high prev30 \<noteq> Some is_high30"
  shows "(let scr' = snd (fst (update_labels_scd40 co2 temp humidity is_high (prev, scr))) in
           palette0 scr' = (if is_high then COLOR_WHITE else COLOR_BLACK)
           \<and> label_color scr' co2_label = (if is_high then COLOR_BLACK else COLOR_WHITE)
           \<and> label_color scr' co2_value = (if is_high then COLOR_BLACK else COLOR_WHITE)
           \<and> label_color scr' temp_label = (if is_high then COLOR_BLACK else COLOR_WHITE)
           \<and> label_color scr' humid_label = (if is_high then COLOR_BLACK else COLOR_WHITE)
           \<and> label_text scr' icon_label = (if is_high then GLYPH_FROWN else GLYPH_SMILE)
           \<and> label_color scr' icon_label = (if is_high then COLOR_RED else COLOR_GREEN))
     \<and> (let scr' = fst (snd (fst (update_labels_sgp30 co230 voc is_high30 (prev30, scr30, led30)))) in
           palette0 scr' = (if is_high30 then COLOR_WHITE else COLOR_BLACK)
           \<and> label_color scr' co2_label = (if is_high30 then COLOR_BLACK else COLOR_WHITE)
           \<and> label_color scr' co2_value = (if is_high30 then COLOR_BLACK else COLOR_WHITE)
           \<and> label_color scr' voc_label = (if is_high30 then COLOR_BLACK else COLOR_WHITE)
           \<and> label_color scr' voc_status
               = (if q_voc prev30 = Some voc then (if is_high30 then COLOR_BLACK else COLOR_WHITE)
                  else if voc \<ge> VOC_THRESHOLD then COLOR_RED else COLOR_GREEN)
           \<and> label_text scr' icon_label = (if is_high30 then GLYPH_FROWN else GLYPH_SMILE)
           \<and> label_color scr' icon_label = (if is_high30 then COLOR_RED else COLOR_GREEN))"
  using assms
  by (simp add: Let_def update_labels_scd40_palette update_labels_scd40_color
      update_labels_scd40_text update_labels_sgp30_palette update_labels_sgp30_color
      update_labels_sgp30_text COLOR_BLACK_def COLOR_WHITE_def COLOR_RED_def COLOR_GREEN_def)

lemma first_scd40_prev:
  "fst first_scd40 = \<lparr>p_co2 = Some 1200, p_temp = Some 70, p_humidity = Some 40, p_is_high = Some True\<rparr>"
  by (simp add: first_scd40_def update_labels_scd40_def Let_def)

lemma first_sgp30_prev:
  "fst first_sgp30 = \<lparr>q_co2 = Some 1200, q_voc = Some 100, q_is_high = Some True\<rparr>"
  by (simp add: first_sgp30_def update_labels_sgp30_def Let_def)

theorem high_flip_palette_witness:
  "(let scr' = snd (fst (update_labels_scd40 800 70 40 False first_scd40)) in
      palette0 scr' = COLOR_BLACK \<and> label_color scr' co2_label = COLOR_WHITE
      \<and> label_color scr' co2_value = COLOR_WHITE \<and> label_color scr' temp_label = COLOR_WHITE
      \<and> label_color scr' humid_label = COLOR_WHITE \<and> label_text scr' icon_label = GLYPH_SMILE
      \<and> label_color scr' icon_label = COLOR_GREEN)
   \<and> (let scr' = fst (snd (fst (update_labels_sgp30 800 100 False first_sgp30))) in
      palette0 scr' = COLOR_BLACK \<and> label_color scr' co2_label = COLOR_WHITE
      \<and> label_color scr' co2_value = COLOR_WHITE \<and> label_color scr' voc_label = COLOR_WHITE
      \<and> label_color scr' voc_status = COLOR_WHITE \<and> label_text scr' icon_label = GLYPH_SMILE
      \<and> label_color scr' icon_label = COLOR_GREEN)"
proof -
  have a: "p_is_high (fst first_scd40) \<noteq> Some False" by (simp add: first_scd40_prev)
  have b: "q_is_high (fst first_sgp30) \<noteq> Some False" by (simp add: first_sgp30_prev)
  have c: "q_voc (fst first_sgp30) = Some 100" by (simp add: first_sgp30_prev)
  show ?thesis
    using high_flip_palette [OF a b, of 800 70 40 "snd first_scd40" 800 100
        "fst (snd first_sgp30)" "snd (snd first_sgp30)"] c
    by simp
qed

text \<open>
  C6 (as stated, refuted): in the SGP30 script the branch for a changed VOC value assigns a
  colour too. With \<open>is_high\<close> unchanged, a VOC reading that rises from 100 to 300
  turns the VOC status label from green to red.
\<close>

theorem voc_branch_sets_color_counterexample:
  "q_is_high (fst first_sgp30) = Some True
   \<and> SetColor voc_status COLOR_RED \<in> set (snd (update_labels_sgp30 1200 300 True first_sgp30))
   \<and> label_color (fst (snd first_sgp30)) voc_status = COLOR_GREEN
   \<and> label_color (fst (snd (fst (update_labels_sgp30 1200 300 True first_sgp30)))) voc_status
       = COLOR_RED"
  by (simp add: first_sgp30_def update_labels_sgp30_def Let_def fresh_sgp30_def
      initialize_baseline_tracking_def globals_sgp30_def VOC_THRESHOLD_def
      COLOR_RED_def COLOR_GREEN_def)

lemma update_labels_scd40_color_writes:
  "w \<in> set (snd (update_labels_scd40 co2 temp humidity is_high (prev, scr)))
   \<Longrightarrow> is_color_write w \<Longrightarrow> p_is_high prev \<noteq> Some is_high"
  by (auto simp add: update_labels_scd40_def Let_def split: if_splits)

lemma update_labels_sgp30_color_writes:
  "w \<in> set (snd (update_labels_sgp30 co2 voc is_high (prev, scr, l0)))
   \<Longrightarrow> is_color_write w
   \<Longrightarrow> q_is_high prev \<noteq> Some is_high
       \<or> (q_voc prev \<noteq> Some voc
          \<and> w = SetColor voc_status (if voc \<ge> VOC_THRESHOLD then COLOR_RED else COLOR_GREEN))"
  by (auto simp add: update_labels_sgp30_def Let_def split: if_splits)

text \<open>
  C6 (amended): in every render call, a colour (background palette entry, label colour,
  icon colour) is written only by the branch taken when \<open>is_high\<close> differs from the
  cached value, except that in the SGP30 script the branch for a changed VOC value also
  writes the colour of the VOC status label (green or red by the VOC threshold). When
  \<open>is_high\<close> is unchanged, the background, the icon and every label colour stay as
  they are (in the SGP30 script the colour of the VOC status label stays if the VOC
  value is unchanged too); and the texts of the labels of a value that is unchanged stay
  as they are, so a changed value rewrites only the texts of its own labels.
\<close>

theorem colors_written_by_flip:
  "(let r = update_labels_scd40 co2 temp humidity is_high (prev, scr); scr' = snd (fst r) in
      (\<forall>w \<in> set (snd r). is_color_write w \<longrightarrow> p_is_high prev \<noteq> Some is_high)
      \<and> (p_is_high prev = Some is_high \<longrightarrow>
            palette0 scr' = palette0 scr \<and> label_color scr' = label_color scr
            \<and> label_text scr' icon_label = label_text scr icon_label)
      \<and> (p_co2 prev = Some co2 \<longrightarrow>
            label_text scr' co2_label = label_text scr co2_label
            \<and> label_text scr' co2_value = label_text scr co2_value)
      \<and> (p_temp prev = Some temp \<longrightarrow> label_text scr' temp_label = label_text scr temp_label)
      \<and> (p_humidity prev = Some humidity \<longrightarrow>
            label_text scr' humid_label = label_text scr humid_label))
   \<and> (let r = update_labels_sgp30 co230 voc is_high30 (prev30, scr30, led30);
          scr' = fst (snd (fst r)) in
      (\<forall>w \<in> set (snd r). is_color_write w \<longrightarrow>
          q_is_high prev30 \<noteq> Some is_high30
          \<or> (q_voc prev30 \<noteq> Some voc
             \<and> w = SetColor voc_status (if voc \<ge> VOC_THRESHOLD then COLOR_RED else COLOR_GREEN)))
      \<and> (q_is_high prev30 = Some is_high30 \<longrightarrow>
            palette0 scr' = palette0 scr30
            \<and> (\<forall>l. l \<noteq> voc_status \<longrightarrow> label_color scr' l = label_color scr30 l)
            \<and> (q_voc prev30 = Some voc \<longrightarrow> label_color scr' voc_status = label_color scr30 voc_status)
            \<and> label_text scr' icon_label = label_text scr30 icon_label)
      \<and> (q_co2 prev30 = Some co230 \<longrightarrow>
            label_text scr' co2_label = label_text scr30 co2_label
            \<and> label_text scr' co2_value = label_text scr30 co2_value)
      \<and> (q_voc prev30 = Some voc \<longrightarrow>
            label_text scr' voc_status = label_text scr30 voc_status
            \<and> label_text scr' voc_label = label_text scr30 voc_label))"
proof -
  have a: "\<forall>w \<in> set (snd (update_labels_scd40 co2 temp humidity is_high (prev, scr))).
             is_color_write w \<longrightarrow> p_is_high prev \<noteq> Some is_high"
    using update_labels_scd40_color_writes by blast
  have b: "\<forall>w \<in> set (snd (update_labels_sgp30 co230 voc is_high30 (prev30, scr30, led30))).
             is_color_write w \<longrightarrow>
               q_is_high prev30 \<noteq> Some is_high30
               \<or> (q_voc prev30 \<noteq> Some voc
                  \<and> w = SetColor voc_status (if voc \<ge> VOC_THRESHOLD then COLOR_RED else COLOR_GREEN))"
    using update_labels_sgp30_color_writes by blast
  have c: "p_is_high prev = Some is_high \<Longrightarrow>
      label_color (snd (fst (update_labels_scd40 co2 temp humidity is_high (prev, scr))))
        = label_color scr"
    by (rule ext) (simp add: update_labels_scd40_color)
  show ?thesis
    using a b c
    by (simp add: Let_def update_labels_scd40_palette update_labels_scd40_text
        update_labels_sgp30_palette update_labels_sgp30_color update_labels_sgp30_text)
qed

theorem colors_written_by_flip_witness:
  "(let scr' = snd (fst (update_labels_scd40 1300 70 40 True first_scd40)) in
      palette0 scr' = palette0 (snd first_scd40)
      \<and> label_color scr' = label_color (snd first_scd40)
      \<and> label_text scr' icon_label = label_text (snd first_scd40) icon_label
      \<and> label_text scr' temp_label = label_text (snd first_scd40) temp_label
      \<and> label_text scr' humid_label = label_text (snd first_scd40) humid_label)
   \<and> (let scr' = fst (snd (fst (update_labels_sgp30 1300 100 True first_sgp30))) in
      palette0 scr' = palette0 (fst (snd first_sgp30))
      \<and> label_color scr' voc_status = label_color (fst (snd first_sgp30)) voc_status
      \<and> label_text scr' icon_label = label_text (fst (snd first_sgp30)) icon_label
      \<and> label_text scr' voc_status = label_text (fst (snd first_sgp30)) voc_status
      \<and> label_text scr' voc_label = label_text (fst (snd first_sgp30)) voc_label)"
proof -
  have a: "p_is_high (fst first_scd40) = Some True" "p_temp (fst first_scd40) = Some 70"
    "p_humidity (fst first_scd40) = Some 40"
    by (simp_all add: first_scd40_prev)
  have b: "q_is_high (fst first_sgp30) = Some True" "q_voc (fst first_sgp30) = Some 100"
    by (simp_all add: first_sgp30_prev)
  show ?thesis
    using colors_written_by_flip [of 1300 70 40 True "fst first_scd40" "snd first_scd40"
        1300 100 True "fst first_sgp30" "fst (snd first_sgp30)" "snd (snd first_sgp30)"] a b
    by (simp add: Let_def)
qed

lemmas color_defs = COLOR_BLACK_def COLOR_WHITE_def COLOR_GREEN_def COLOR_RED_def

lemma update_labels_scd40_cache:
  "fst (fst (update_labels_scd40 co2 temp humidity is_high ps))
     = \<lparr>p_co2 = Some co2, p_temp = Some temp, p_humidity = Some humidity, p_is_high = Some is_high\<rparr>"
  by (simp add: update_labels_scd40_def Let_def)

lemma update_labels_sgp30_cache:
  "fst (fst (update_labels_sgp30 co2 voc is_high psl))
     = \<lparr>q_co2 = Some co2, q_voc = Some voc, q_is_high = Some is_high\<rparr>"
  by (simp add: update_labels_sgp30_def Let_def)

lemma update_labels_scd40_mirrors:
  assumes "mirrors_scd40 prev scr" and "is_high = (co2 \<ge> CO2_THRESHOLD)"
  shows "mirrors_scd40 (fst (fst (update_labels_scd40 co2 temp humidity is_high (prev, scr))))
           (snd (fst (update_labels_scd40 co2 temp humidity is_high (prev, scr))))"
  using assms
  by (auto simp add: mirrors_scd40_def update_labels_scd40_cache update_labels_scd40_palette
      update_labels_scd40_color update_labels_scd40_text color_defs split: option.splits)

lemma update_labels_sgp30_mirrors:
  assumes "mirrors_sgp30 prev scr" and "is_high = (co2 \<ge> CO2_THRESHOLD)"
  shows "mirrors_sgp30 (fst (fst (update_labels_sgp30 co2 voc is_high (prev, scr, l0))))
           (fst (snd (fst (update_labels_sgp30 co2 voc is_high (prev, scr, l0)))))"
  using assms
  by (auto simp add: mirrors_sgp30_def update_labels_sgp30_cache update_labels_sgp30_palette
      update_labels_sgp30_color update_labels_sgp30_text color_defs split: option.splits)

lemma update_labels_scd40_idle:
  "prev = \<lparr>p_co2 = Some co2, p_temp = Some temp, p_humidity = Some humidity, p_is_high = Some is_high\<rparr>
   \<Longrightarrow> update_labels_scd40 co2 temp humidity is_high (prev, scr) = ((prev, scr), [])"
  by (simp add: update_labels_scd40_def Let_def)

lemma update_labels_sgp30_idle:
  "prev = \<lparr>q_co2 = Some co2, q_voc = Some voc, q_is_high = Some is_high\<rparr>
   \<Longrightarrow> snd (update_labels_sgp30 co2 voc is_high (prev, scr, l0)) = []
       \<and> fst (snd (fst (update_labels_sgp30 co2 voc is_high (prev, scr, l0)))) = scr"
  by (simp add: update_labels_sgp30_def Let_def)

lemma glyphs_differ: "GLYPH_FROWN \<noteq> GLYPH_SMILE"
  by (simp add: GLYPH_FROWN_def GLYPH_SMILE_def)

lemma update_labels_scd40_writes:
  assumes "w \<in> set (snd (update_labels_scd40 co2 temp humidity is_high (prev, scr)))"
  shows "(p_is_high prev \<noteq> Some is_high
            \<and> w \<in> {SetPalette (if is_high then COLOR_WHITE else COLOR_BLACK),
                    SetColor co2_label (if is_high then COLOR_BLACK else COLOR_WHITE),
                    SetColor co2_value (if is_high then COLOR_BLACK else COLOR_WHITE),
                    SetColor temp_label (if is_high then COLOR_BLACK else COLOR_WHITE),
                    SetColor humid_label (if is_high then COLOR_BLACK else COLOR_WHITE),
                    SetText icon_label (if is_high then GLYPH_FROWN else GLYPH_SMILE),
                    SetColor icon_label (if is_high then COLOR_RED else COLOR_GREEN)})
         \<or> (p_co2 prev \<noteq> Some co2
            \<and> ((\<exists>x. w = SetText co2_label x) \<or> w = SetText co2_value (str_int co2)))
         \<or> (p_temp prev \<noteq> Some temp \<and> w = SetText temp_label (str_int temp @ DEGREE_SIGN @ ''F''))
         \<or> (p_humidity prev \<noteq> Some humidity \<and> w = SetText humid_label (str_int humidity @ ''%''))"
  using assms
  by (auto simp add: update_labels_scd40_def Let_def color_defs split: if_splits)

lemma update_labels_sgp30_writes:
  assumes "w \<in> set (snd (update_labels_sgp30 co2 voc is_high (prev, scr, l0)))"
  shows "(q_is_high prev \<noteq> Some is_high
            \<and> w \<in> {SetPalette (if is_high then COLOR_WHITE else COLOR_BLACK),
                    SetColor co2_label (if is_high then COLOR_BLACK else COLOR_WHITE),
                    SetColor co2_value (if is_high then COLOR_BLACK else COLOR_WHITE),
                    SetColor voc_status (if is_high then COLOR_BLACK else COLOR_WHITE),
                    SetColor voc_label (if is_high then COLOR_BLACK else COLOR_WHITE),
                    SetText icon_label (if is_high then GLYPH_FROWN else GLYPH_SMILE),
                    SetColor icon_label (if is_high then COLOR_RED else COLOR_GREEN)})
         \<or> (q_co2 prev \<noteq> Some co2
            \<and> ((\<exists>x. w = SetText co2_label x) \<or> w = SetText co2_value (str_int co2)))
         \<or> (q_voc prev \<noteq> Some voc
            \<and> w \<in> {SetText voc_status ''VOC:'', SetColor voc_status COLOR_GREEN,
                    SetColor voc_status COLOR_RED, SetText voc_label (str_int voc)})"
  using assms
  by (auto simp add: update_labels_sgp30_def Let_def color_defs split: if_splits)

lemma colors_differ:
  "COLOR_WHITE \<noteq> COLOR_BLACK" "COLOR_RED \<noteq> COLOR_GREEN"
  "COLOR_GREEN \<noteq> COLOR_BLACK" "COLOR_GREEN \<noteq> COLOR_WHITE"
  "COLOR_RED \<noteq> COLOR_BLACK" "COLOR_RED \<noteq> COLOR_WHITE"
  by (simp_all add: color_defs)

lemma update_labels_scd40_redundant:
  assumes m: "mirrors_scd40 prev scr"
    and known: "p_is_high prev = Some h" "p_co2 prev = Some c"
      "p_temp prev = Some t" "p_humidity prev = Some u"
    and w: "w \<in> set (snd (update_labels_scd40 co2 temp humidity is_high (prev, scr)))"
    and r: "redundant scr w"
  shows "\<exists>x. w = SetText co2_label x"
proof -
  have scr: "palette0 scr = (if h then COLOR_WHITE else COLOR_BLACK)"
    "label_color scr co2_label = (if h then COLOR_BLACK else COLOR_WHITE)"
    "label_color scr co2_value = (if h then COLOR_BLACK else COLOR_WHITE)"
    "label_color scr temp_label = (if h then COLOR_BLACK else COLOR_WHITE)"
    "label_color scr humid_label = (if h then COLOR_BLACK else COLOR_WHITE)"
    "label_text scr icon_label = (if h then GLYPH_FROWN else GLYPH_SMILE)"
    "label_color scr icon_label = (if h then COLOR_RED else COLOR_GREEN)"
    "label_text scr co2_value = str_int c"
    "label_text scr temp_label = str_int t @ DEGREE_SIGN @ ''F''"
    "label_text scr humid_label = str_int u @ ''%''"
    using m known by (simp_all add: mirrors_scd40_def)
  from update_labels_scd40_writes [OF w]
  consider
    (high) "h \<noteq> is_high"
      "w \<in> {SetPalette (if is_high then COLOR_WHITE else COLOR_BLACK),
             SetColor co2_label (if is_high then COLOR_BLACK else COLOR_WHITE),
             SetColor co2_value (if is_high then COLOR_BLACK else COLOR_WHITE),
             SetColor temp_label (if is_high then COLOR_BLACK else COLOR_WHITE),
             SetColor humid_label (if is_high then COLOR_BLACK else COLOR_WHITE),
             SetText icon_label (if is_high then GLYPH_FROWN else GLYPH_SMILE),
             SetColor icon_label (if is_high then COLOR_RED else COLOR_GREEN)}"
  | (headline) "\<exists>x. w = SetText co2_label x"
  | (co2) "c \<noteq> co2" "w = SetText co2_value (str_int co2)"
  | (temp) "t \<noteq> temp" "w = SetText temp_label (str_int temp @ DEGREE_SIGN @ ''F'')"
  | (humid) "u \<noteq> humidity" "w = SetText humid_label (str_int humidity @ ''%'')"
    using known by auto
  then show ?thesis
  proof cases
    case high
    then have False using r scr colors_differ glyphs_differ
      by (cases h; cases is_high) auto
    then show ?thesis ..
  next
    case headline
    then show ?thesis .
  next
    case co2
    then have "str_int c = str_int co2" using r scr by simp
    then show ?thesis using co2 str_int_inj by blast
  next
    case temp
    then have "str_int t = str_int temp" using r scr by simp
    then show ?thesis using temp str_int_inj by blast
  next
    case humid
    then have "str_int u = str_int humidity" using r scr by simp
    then show ?thesis using humid str_int_inj by blast
  qed
qed

lemma update_labels_sgp30_redundant:
  assumes m: "mirrors_sgp30 prev scr"
    and known: "q_is_high prev = Some h" "q_co2 prev = Some c" "q_voc prev = Some v"
    and w: "w \<in> set (snd (update_labels_sgp30 co2 voc is_high (prev, scr, l0)))"
    and r: "redundant scr w"
  shows "(\<exists>x. w = SetText co2_label x) \<or> w = SetText voc_status ''VOC:''
         \<or> w = SetColor voc_status COLOR_GREEN \<or> w = SetColor voc_status COLOR_RED"
proof -
  have scr: "palette0 scr = (if h then COLOR_WHITE else COLOR_BLACK)"
    "label_color scr co2_label = (if h then COLOR_BLACK else COLOR_WHITE)"
    "label_color scr co2_value = (if h then COLOR_BLACK else COLOR_WHITE)"
    "label_color scr voc_label = (if h then COLOR_BLACK else COLOR_WHITE)"
    "label_color scr voc_status \<in> {if h then COLOR_BLACK else COLOR_WHITE, COLOR_GREEN, COLOR_RED}"
    "label_text scr icon_label = (if h then GLYPH_FROWN else GLYPH_SMILE)"
    "label_color scr icon_label = (if h then COLOR_RED else COLOR_GREEN)"
    "label_text scr co2_value = str_int c"
    "label_text scr voc_label = str_int v"
    using m known by (simp_all add: mirrors_sgp30_def)
  from update_labels_sgp30_writes [OF w]
  consider
    (high) "h \<noteq> is_high"
      "w \<in> {SetPalette (if is_high then COLOR_WHITE else COLOR_BLACK),
             SetColor co2_label (if is_high then COLOR_BLACK else COLOR_WHITE),
             SetColor co2_value (if is_high then COLOR_BLACK else COLOR_WHITE),
             SetColor voc_status (if is_high then COLOR_BLACK else COLOR_WHITE),
             SetColor voc_label (if is_high then COLOR_BLACK else COLOR_WHITE),
             SetText icon_label (if is_high then GLYPH_FROWN else GLYPH_SMILE),
             SetColor icon_label (if is_high then COLOR_RED else COLOR_GREEN)}"
  | (listed) "(\<exists>x. w = SetText co2_label x) \<or> w = SetText voc_status ''VOC:''
         \<or> w = SetColor voc_status COLOR_GREEN \<or> w = SetColor voc_status COLOR_RED"
  | (co2) "c \<noteq> co2" "w = SetText co2_value (str_int co2)"
  | (voc) "v \<noteq> voc" "w = SetText voc_label (str_int voc)"
    using known by auto
  then show ?thesis
  proof cases
    case high
    then have False using r scr colors_differ glyphs_differ
      by (cases h; cases is_high) auto
    then show ?thesis ..
  next
    case listed
    then show ?thesis .
  next
    case co2
    then have "str_int c = str_int co2" using r scr by simp
    then show ?thesis using co2 str_int_inj by blast
  next
    case voc
    then have "str_int v = str_int voc" using r scr by simp
    then show ?thesis using voc str_int_inj by blast
  qed
qed

text \<open>
  C2 (as stated, refuted): the headline is rewritten whenever the CO2 value changes, also
  when it does not change. After a reading of 1200 ppm the headline is CO2: HIGH; a
  reading of 1300 ppm assigns CO2: HIGH to it again.
\<close>

theorem headline_rewritten_counterexample:
  "SetText co2_label ''CO2: HIGH'' \<in> set (snd (update_labels_scd40 1300 70 40 True first_scd40))
   \<and> redundant (snd first_scd40) (SetText co2_label ''CO2: HIGH'')"
  by (simp add: first_scd40_def update_labels_scd40_def Let_def prev_values_scd40_def)

text \<open>
  C2 (amended): for every call of the renderer with a reading whose \<open>is_high\<close> is
  \<open>co2 >= CO2_THRESHOLD\<close>, made when the cache mirrors the screen: after the call the
  cache holds exactly that reading and mirrors the screen again; a reading equal to the
  cache writes nothing; and once every cache entry holds a value, the only writes that
  assign a value the attribute already holds are the headline text and, in the SGP30
  script, the text and the green or red colour of the VOC status label.
\<close>

theorem cache_mirrors_screen:
  assumes "mirrors_scd40 prev scr" and "is_high = (co2 \<ge> CO2_THRESHOLD)"
    and "mirrors_sgp30 prev30 scr30" and "is_high30 = (co230 \<ge> CO2_THRESHOLD)"
  shows "(let r = update_labels_scd40 co2 temp humidity is_high (prev, scr) in
            fst (fst r) = \<lparr>p_co2 = Some co2, p_temp = Some temp,
                             p_humidity = Some humidity, p_is_high = Some is_high\<rparr>
            \<and> mirrors_scd40 (fst (fst r)) (snd (fst r))
            \<and> (prev = fst (fst r) \<longrightarrow> snd r = [] \<and> snd (fst r) = scr)
            \<and> (p_is_high prev \<noteq> None \<and> p_co2 prev \<noteq> None
                 \<and> p_temp prev \<noteq> None \<and> p_humidity prev \<noteq> None \<longrightarrow>
                 (\<forall>w \<in> set (snd r). redundant scr w \<longrightarrow> (\<exists>x. w = SetText co2_label x))))
     \<and> (let r = update_labels_sgp30 co230 voc is_high30 (prev30, scr30, led30) in
            fst (fst r) = \<lparr>q_co2 = Some co230, q_voc = Some voc, q_is_high = Some is_high30\<rparr>
            \<and> mirrors_sgp30 (fst (fst r)) (fst (snd (fst r)))
            \<and> (prev30 = fst (fst r) \<longrightarrow> snd r = [] \<and> fst (snd (fst r)) = scr30)
            \<and> (q_is_high prev30 \<noteq> None \<and> q_co2 prev30 \<noteq> None \<and> q_voc prev30 \<noteq> None \<longrightarrow>
                 (\<forall>w \<in> set (snd r). redundant scr30 w \<longrightarrow>
                    (\<exists>x. w = SetText co2_label x) \<or> w = SetText voc_status ''VOC:''
                    \<or> w = SetColor voc_status COLOR_GREEN \<or> w = SetColor voc_status COLOR_RED)))"
proof -
  let ?r = "update_labels_scd40 co2 temp humidity is_high (prev, scr)"
  let ?q = "update_labels_sgp30 co230 voc is_high30 (prev30, scr30, led30)"
  have a1: "fst (fst ?r) = \<lparr>p_co2 = Some co2, p_temp = Some temp,
                             p_humidity = Some humidity, p_is_high = Some is_high\<rparr>"
    by (rule update_labels_scd40_cache)
  have a2: "mirrors_scd40 (fst (fst ?r)) (snd (fst ?r))"
    using assms(1,2) by (rule update_labels_scd40_mirrors)
  have a3: "prev = fst (fst ?r) \<longrightarrow> snd ?r = [] \<and> snd (fst ?r) = scr"
    using update_labels_scd40_idle [of prev co2 temp humidity is_high scr] a1 by simp
  have a4: "p_is_high prev \<noteq> None \<and> p_co2 prev \<noteq> None
              \<and> p_temp prev \<noteq> None \<and> p_humidity prev \<noteq> None \<longrightarrow>
            (\<forall>w \<in> set (snd ?r). redundant scr w \<longrightarrow> (\<exists>x. w = SetText co2_label x))"
    using update_labels_scd40_redundant [OF assms(1)] by blast
  have b1: "fst (fst ?q) = \<lparr>q_co2 = Some co230, q_voc = Some voc, q_is_high = Some is_high30\<rparr>"
    by (rule update_labels_sgp30_cache)
  have b2: "mirrors_sgp30 (fst (fst ?q)) (fst (snd (fst ?q)))"
    using assms(3,4) by (rule update_labels_sgp30_mirrors)
  have b3: "prev30 = fst (fst ?q) \<longrightarrow> snd ?q = [] \<and> fst (snd (fst ?q)) = scr30"
    using update_labels_sgp30_idle [of prev30 co230 voc is_high30 scr30 led30] b1 by simp
  have b4: "q_is_high prev30 \<noteq> None \<and> q_co2 prev30 \<noteq> None \<and> q_voc prev30 \<noteq> None \<longrightarrow>
            (\<forall>w \<in> set (snd ?q). redundant scr30 w \<longrightarrow>
               (\<exists>x. w = SetText co2_label x) \<or> w = SetText voc_status ''VOC:''
               \<or> w = SetColor voc_status COLOR_GREEN \<or> w = SetColor voc_status COLOR_RED)"
    using update_labels_sgp30_redundant [OF assms(3)] by blast
  show ?thesis
    unfolding Let_def using a1 a2 a3 a4 b1 b2 b3 b4 by blast
qed

lemma mirrors_first_scd40: "mirrors_scd40 (fst first_scd40) (snd first_scd40)"
  unfolding first_scd40_def
  by (rule update_labels_scd40_mirrors)
    (simp_all add: mirrors_scd40_def prev_values_scd40_def CO2_THRESHOLD_def)

lemma mirrors_first_sgp30: "mirrors_sgp30 (fst first_sgp30) (fst (snd first_sgp30))"
  unfolding first_sgp30_def
  by (rule update_labels_sgp30_mirrors)
    (simp_all add: mirrors_sgp30_def fresh_sgp30_def initialize_baseline_tracking_def
      globals_sgp30_def CO2_THRESHOLD_def)

theorem cache_mirrors_screen_witness:
  "(let r = update_labels_scd40 1300 70 40 True first_scd40 in
      fst (fst r) = \<lparr>p_co2 = Some 1300, p_temp = Some 70, p_humidity = Some 40, p_is_high = Some True\<rparr>
      \<and> mirrors_scd40 (fst (fst r)) (snd (fst r)))
   \<and> (let r = update_labels_sgp30 1300 100 True first_sgp30 in
      fst (fst r) = \<lparr>q_co2 = Some 1300, q_voc = Some 100, q_is_high = Some True\<rparr>
      \<and> mirrors_sgp30 (fst (fst r)) (fst (snd (fst r))))"
proof -
  have t: "True = (1300 \<ge> CO2_THRESHOLD)" by (simp add: CO2_THRESHOLD_def)
  show ?thesis
    using cache_mirrors_screen [OF mirrors_first_scd40 t mirrors_first_sgp30 t,
        of 70 40 100 "snd (snd first_sgp30)", unfolded prod.collapse Let_def]
    unfolding Let_def by blast
qed


subsection \<open>The cache mirrors the screen at every iteration\<close>

text \<open>
  The mirror that the property of the renderer assumes holds whenever the loops call
  it: in every state the SCD40 loop reaches from the loading screen, and in every state
  the SGP30 loop reaches from an empty cache when the clock never runs backwards.
\<close>

lemma boot_scd40_steady: "steady_scd40 (boot_scd40 t0)"
  by (simp add: steady_scd40_def boot_scd40_def mirrors_scd40_def prev_values_scd40_def)

lemma update_scd40_steady:
  assumes "steady_scd40 st"
  shows "steady_scd40 (update_scd40 now poll st)"
proof (cases poll)
  case (ReadFails e)
  then show ?thesis using assms by (simp add: update_scd40_def steady_scd40_def)
next
  case NotReady
  then show ?thesis using assms
    by (auto simp add: update_scd40_def steady_scd40_def update_spinner_animation_def
        SPINNER_CHARS_def mirrors_scd40_def split: option.splits)
next
  case (Sample c t h)
  have m: "mirrors_scd40 (prev_values st) (display st)" using assms by (simp add: steady_scd40_def)
  have "mirrors_scd40
      (fst (fst (update_labels_scd40 c (py_int (t * (9 / 5) + 32)) (py_int h) (c \<ge> CO2_THRESHOLD)
         (prev_values st, display st))))
      (snd (fst (update_labels_scd40 c (py_int (t * (9 / 5) + 32)) (py_int h) (c \<ge> CO2_THRESHOLD)
         (prev_values st, display st))))"
    using m by (rule update_labels_scd40_mirrors) simp
  then show ?thesis using Sample
    by (simp add: update_scd40_def steady_scd40_def Let_def update_labels_scd40_cache)
qed

lemma run_scd40_mirrors:
  "steady_scd40 st \<Longrightarrow> steady_scd40 (fst (run_scd40 inps st))"
proof (induction inps arbitrary: st)
  case Nil
  then show ?case by simp
next
  case (Cons inp inps)
  have "steady_scd40 (update_scd40 (fst inp) (snd inp) st)"
    using Cons.prems by (rule update_scd40_steady)
  then show ?case using Cons.IH by (simp add: loop_step_scd40_def Let_def)
qed

lemma mirrors_sgp30_empty: "mirrors_sgp30 \<lparr>q_co2 = None, q_voc = None, q_is_high = None\<rparr> scr"
  by (simp add: mirrors_sgp30_def)

lemma update_sgp30_fields:
  assumes "check_warmup_status (clock_status inp) (start_time st) = Inr status"
  shows "sgp_prev_values (final_state (update_sgp30 inp st))
           = sgp_prev_values (final_state (update_body inp status st))
     \<and> sgp_display (final_state (update_sgp30 inp st))
           = sgp_display (final_state (update_body inp status st))
     \<and> start_time (final_state (update_sgp30 inp st))
           = start_time (final_state (update_body inp status st))"
proof (cases "update_body inp status st")
  case (Inl x)
  then show ?thesis using assms by (cases x) (simp add: update_sgp30_def)
next
  case (Inr st')
  then show ?thesis using assms by (simp add: update_sgp30_def)
qed

lemma update_body_loading:
  "\<not> warmed_up status
   \<Longrightarrow> sgp_prev_values (final_state (update_body inp status st)) = sgp_prev_values st"
  by (simp add: update_body_def Let_def update_spinner_animation_def SPINNER_CHARS_def)

lemma update_body_unread:
  "warmed_up status \<Longrightarrow> sensor_values inp = Inl e
   \<Longrightarrow> final_state (update_body inp status st) = st"
  by (simp add: update_body_def Let_def)

lemma update_body_render:
  "warmed_up status \<Longrightarrow> sensor_values inp = Inr (c, v)
   \<Longrightarrow> sgp_prev_values (final_state (update_body inp status st))
         = fst (fst (update_labels_sgp30 c v (c \<ge> CO2_THRESHOLD)
             (sgp_prev_values st, sgp_display st, led st)))
       \<and> sgp_display (final_state (update_body inp status st))
         = fst (snd (fst (update_labels_sgp30 c v (c \<ge> CO2_THRESHOLD)
             (sgp_prev_values st, sgp_display st, led st))))"
  by (simp add: update_body_def Let_def update_baseline_frame)

lemma update_sgp30_steady:
  assumes st: "steady_sgp30 lo st" and lo: "lo \<le> clock_status inp"
  shows "steady_sgp30 (clock_status inp) (final_state (update_sgp30 inp st))"
proof (cases "start_time st")
  case None
  then have "final_state (update_sgp30 inp st) = st"
    by (simp add: update_sgp30_def check_warmup_status_def)
  then show ?thesis using st None by (auto simp add: steady_sgp30_def)
next
  case (Some s)
  define status where "status = \<lparr>warmed_up = clock_status inp - s > WARMUP_TIME,
      fully_calibrated = clock_status inp - s > CALIBRATION_TIME,
      elapsed_time = clock_status inp - s\<rparr>"
  have chk: "check_warmup_status (clock_status inp) (start_time st) = Inr status"
    using Some by (simp add: check_warmup_status_def status_def Let_def)
  note f = update_sgp30_fields [OF chk]
  have stt: "start_time (final_state (update_sgp30 inp st)) = Some s"
    using f update_body_start_time [of inp status st] Some by simp
  have later: "warmed_up status \<Longrightarrow>
      (case start_time (final_state (update_sgp30 inp st)) of
         None \<Rightarrow> False | Some s \<Rightarrow> clock_status inp - s > WARMUP_TIME)"
    by (simp add: stt status_def)
  show ?thesis
  proof (cases "warmed_up status")
    case False
    then have cold: "\<not> clock_status inp - s > WARMUP_TIME" by (simp add: status_def)
    have "sgp_prev_values st = \<lparr>q_co2 = None, q_voc = None, q_is_high = None\<rparr>"
      using st Some cold lo by (auto simp add: steady_sgp30_def)
    then have "sgp_prev_values (final_state (update_sgp30 inp st))
                 = \<lparr>q_co2 = None, q_voc = None, q_is_high = None\<rparr>"
      using f update_body_loading [OF False, of inp st] by simp
    then show ?thesis by (simp add: steady_sgp30_def mirrors_sgp30_empty)
  next
    case True
    then have warm: "clock_status inp - s > WARMUP_TIME" by (simp add: status_def)
    show ?thesis
    proof (cases "sensor_values inp")
      case (Inl e)
      have "final_state (update_body inp status st) = st"
        using True Inl by (rule update_body_unread)
      then have "mirrors_sgp30 (sgp_prev_values (final_state (update_sgp30 inp st)))
          (sgp_display (final_state (update_sgp30 inp st)))"
        using f st by (simp add: steady_sgp30_def)
      then show ?thesis unfolding steady_sgp30_def using later [OF True] by blast
    next
      case (Inr cv)
      obtain c v where cv: "cv = (c, v)" by (cases cv)
      have m: "mirrors_sgp30 (sgp_prev_values st) (sgp_display st)"
        using st by (simp add: steady_sgp30_def)
      have "mirrors_sgp30
          (fst (fst (update_labels_sgp30 c v (c \<ge> CO2_THRESHOLD)
             (sgp_prev_values st, sgp_display st, led st))))
          (fst (snd (fst (update_labels_sgp30 c v (c \<ge> CO2_THRESHOLD)
             (sgp_prev_values st, sgp_display st, led st)))))"
        using m by (rule update_labels_sgp30_mirrors) simp
      then have "mirrors_sgp30 (sgp_prev_values (final_state (update_sgp30 inp st)))
          (sgp_display (final_state (update_sgp30 inp st)))"
        using f update_body_render [OF True, of inp c v st] Inr cv by simp
      then show ?thesis unfolding steady_sgp30_def using later [OF True] by blast
    qed
  qed
qed

lemma run_sgp30_mirrors:
  "steady_sgp30 lo st \<Longrightarrow> sorted (lo # map clock_status inps)
   \<Longrightarrow> \<exists>hi. steady_sgp30 hi (run_end (run_sgp30 inps st))"
proof (induction inps arbitrary: lo st)
  case Nil
  then show ?case by (auto simp add: run_end_def)
next
  case (Cons inp inps)
  have lo: "lo \<le> clock_status inp" using Cons.prems(2) by simp
  have u: "steady_sgp30 (clock_status inp) (final_state (update_sgp30 inp st))"
    using Cons.prems(1) lo by (rule update_sgp30_steady)
  show ?case
  proof (cases "update_sgp30 inp st")
    case (Inl x)
    obtain e st' where "x = (e, st')" by (cases x)
    with Inl u show ?thesis using run_end_raise [of inp st e st' inps]
      by (auto simp del: run_sgp30.simps)
  next
    case (Inr st')
    then have "steady_sgp30 (clock_status inp) st'" using u by simp
    moreover have "sorted (clock_status inp # map clock_status inps)"
      using Cons.prems(2) by simp
    ultimately have "\<exists>hi. steady_sgp30 hi (run_end (run_sgp30 inps st'))"
      by (rule Cons.IH)
    then show ?thesis using run_end_step [OF Inr, of inps] by (simp del: run_sgp30.simps)
  qed
qed

lemma scd40_loop_mirrors:
  "mirrors_scd40 (prev_values (fst (run_scd40 inps (boot_scd40 t0))))
     (display (fst (run_scd40 inps (boot_scd40 t0))))"
  using run_scd40_mirrors [OF boot_scd40_steady, of inps t0] by (simp add: steady_scd40_def)

lemma sgp30_loop_mirrors:
  assumes "sgp_prev_values st = \<lparr>q_co2 = None, q_voc = None, q_is_high = None\<rparr>"
    and "sorted (map clock_status inps)"
  shows "mirrors_sgp30 (sgp_prev_values (run_end (run_sgp30 inps st)))
           (sgp_display (run_end (run_sgp30 inps st)))"
proof (cases inps)
  case Nil
  then show ?thesis using assms(1) by (simp add: run_end_def mirrors_sgp30_empty)
next
  case (Cons inp rest)
  have "steady_sgp30 (clock_status inp) st"
    using assms(1) by (simp add: steady_sgp30_def mirrors_sgp30_empty)
  moreover have "sorted (clock_status inp # map clock_status inps)"
    using assms(2) Cons by simp
  ultimately have "\<exists>hi. steady_sgp30 hi (run_end (run_sgp30 inps st))"
    by (rule run_sgp30_mirrors)
  then show ?thesis by (auto simp add: steady_sgp30_def)
qed


section \<open>A read-only file system\<close>

lemma save_baseline_read_only:
  assumes "start_time st = Some s" and "save_clock io - s > CALIBRATION_TIME"
    and "sensor_baseline io = Inr b"
    and "file_write io = OpenFails 30 \<or> file_write io = DumpFails 30"
  shows "save_baseline io st
           = Inr (say (Printed ''Could not save baseline - filesystem is read-only'')
                    (case file_write io of DumpFails n \<Rightarrow> st\<lparr>stored := NotJson\<rparr> | _ \<Rightarrow> st))"
  using assms by (auto simp add: save_baseline_def Let_def save_baseline_except_def)

lemma run_sgp30_snoc:
  "run_sgp30 (inps @ [inp]) st =
     (case run_sgp30 inps st of
        Inl x \<Rightarrow> Inl x
      | Inr mid \<Rightarrow>
          (case loop_step_sgp30 inp (fst mid) of
             Inl x \<Rightarrow> Inl x
           | Inr r \<Rightarrow> Inr (fst r, snd mid @ [snd r])))"
  by (induction inps arbitrary: st) (simp_all split: sum.split)

lemma update_sgp30_renders:
  assumes start: "start_time st = Some s"
    and warm: "clock_status inp - s > WARMUP_TIME"
    and read: "sensor_values inp = Inr (c, v)"
  shows "\<exists>st'. update_sgp30 inp st = Inr st' \<and> start_time st' = Some s
           \<and> sgp_prev_values st'
               = \<lparr>q_co2 = Some c, q_voc = Some v, q_is_high = Some (c \<ge> CO2_THRESHOLD)\<rparr>
           \<and> sgp_display st'
               = fst (snd (fst (update_labels_sgp30 c v (c \<ge> CO2_THRESHOLD)
                   (sgp_prev_values st, sgp_display st, led st))))"
proof -
  define status where "status = \<lparr>warmed_up = clock_status inp - s > WARMUP_TIME,
      fully_calibrated = clock_status inp - s > CALIBRATION_TIME,
      elapsed_time = clock_status inp - s\<rparr>"
  have chk: "check_warmup_status (clock_status inp) (start_time st) = Inr status"
    using start by (simp add: check_warmup_status_def status_def Let_def)
  have w: "warmed_up status" using warm by (simp add: status_def)
  from update_sgp30_completes [OF start, of inp]
  obtain st' where st': "update_sgp30 inp st = Inr st'" "start_time st' = Some s" by blast
  then have fin: "final_state (update_sgp30 inp st) = st'" by simp
  have "sgp_prev_values st'
          = \<lparr>q_co2 = Some c, q_voc = Some v, q_is_high = Some (c \<ge> CO2_THRESHOLD)\<rparr>"
    using update_sgp30_fields [OF chk] update_body_render [OF w read, of st] fin
    by (simp add: update_labels_sgp30_cache)
  moreover have "sgp_display st'
          = fst (snd (fst (update_labels_sgp30 c v (c \<ge> CO2_THRESHOLD)
              (sgp_prev_values st, sgp_display st, led st))))"
    using update_sgp30_fields [OF chk] update_body_render [OF w read, of st] fin by simp
  ultimately show ?thesis using st' by blast
qed

lemma run_sgp30_then_renders:
  assumes start: "start_time st = Some s"
    and warm: "clock_status inp - s > WARMUP_TIME"
    and read: "sensor_values inp = Inr (c, v)"
  shows "\<exists>mid r. run_sgp30 inps st = Inr mid \<and> run_sgp30 (inps @ [inp]) st = Inr r
           \<and> snd r = snd mid @ [UPDATE_INTERVAL]
           \<and> sgp_prev_values (fst r)
               = \<lparr>q_co2 = Some c, q_voc = Some v, q_is_high = Some (c \<ge> CO2_THRESHOLD)\<rparr>
           \<and> sgp_display (fst r)
               = fst (snd (fst (update_labels_sgp30 c v (c \<ge> CO2_THRESHOLD)
                   (sgp_prev_values (fst mid), sgp_display (fst mid), led (fst mid)))))"
proof -
  from run_sgp30_completes [OF start, of inps]
  obtain mid where mid: "run_sgp30 inps st = Inr mid" "start_time (fst mid) = Some s" by blast
  from update_sgp30_renders [OF mid(2) warm read]
  obtain st' where st': "update_sgp30 inp (fst mid) = Inr st'"
    "sgp_prev_values st'
       = \<lparr>q_co2 = Some c, q_voc = Some v, q_is_high = Some (c \<ge> CO2_THRESHOLD)\<rparr>"
    "sgp_display st'
       = fst (snd (fst (update_labels_sgp30 c v (c \<ge> CO2_THRESHOLD)
           (sgp_prev_values (fst mid), sgp_display (fst mid), led (fst mid)))))"
    by blast
  have "run_sgp30 (inps @ [inp]) st = Inr (st', snd mid @ [UPDATE_INTERVAL])"
    using mid(1) st'(1) st'(2) by (simp add: run_sgp30_snoc loop_step_sgp30_def)
  then show ?thesis using mid(1) st'(2) st'(3) by simp
qed


lemma failing_save_tick:
  assumes start: "start_time st = Some s"
    and gate: "save_clock (tick_save inp) - s > CALIBRATION_TIME"
    and base: "sensor_baseline (tick_save inp) = Inr b"
    and ro: "file_write (tick_save inp) = OpenFails 30 \<or> file_write (tick_save inp) = DumpFails 30"
    and warm: "clock_status inp - s > WARMUP_TIME"
    and read: "sensor_values inp = Inr (c, v)"
    and due: "clock_baseline inp - last_baseline_save st > BASELINE_SAVE_INTERVAL"
  shows "\<exists>st1. update_sgp30 inp st = Inr st1 \<and> start_time st1 = Some s
           \<and> sgp_prev_values st1
               = \<lparr>q_co2 = Some c, q_voc = Some v, q_is_high = Some (c \<ge> CO2_THRESHOLD)\<rparr>
           \<and> sgp_display st1
               = fst (snd (fst (update_labels_sgp30 c v (c \<ge> CO2_THRESHOLD)
                   (sgp_prev_values st, sgp_display st, led st))))
           \<and> sgp_printed st1
               = sgp_printed st
                 @ [Printed (''CO2: '' @ str_int c @ ''ppm''),
                    Printed (''VOC: '' @ str_int v @ ''ppb''),
                    Printed ''Could not save baseline - filesystem is read-only'']
           \<and> last_baseline_save st1 = last_baseline_save st
           \<and> iaq_baseline st1 = iaq_baseline st
           \<and> history st1 = history st @ [SaveInvoked (clock_baseline inp)]"
proof -
  define st2 where "st2 =
     (say (Printed (''VOC: '' @ str_int v @ ''ppb''))
        (say (Printed (''CO2: '' @ str_int c @ ''ppm'')) st))
       \<lparr>sgp_prev_values := fst (fst (update_labels_sgp30 c v (c \<ge> CO2_THRESHOLD)
            (sgp_prev_values st, sgp_display st, led st))),
        sgp_display := fst (snd (fst (update_labels_sgp30 c v (c \<ge> CO2_THRESHOLD)
            (sgp_prev_values st, sgp_display st, led st)))),
        led := snd (snd (fst (update_labels_sgp30 c v (c \<ge> CO2_THRESHOLD)
            (sgp_prev_values st, sgp_display st, led st)))),
        history := history st @ [SaveInvoked (clock_baseline inp)]\<rparr>"
  have s2: "start_time st2 = Some s" using start by (simp add: st2_def)
  note sv = save_baseline_read_only [OF s2 gate base ro]
  have body: "update_body inp
      \<lparr>warmed_up = True, fully_calibrated = clock_status inp - s > CALIBRATION_TIME,
       elapsed_time = clock_status inp - s\<rparr> st
      = Inr (say (Printed ''Could not save baseline - filesystem is read-only'')
              (case file_write (tick_save inp) of
                 DumpFails n \<Rightarrow> st2\<lparr>stored := NotJson\<rparr> | _ \<Rightarrow> st2))"
    using read due sv
    by (simp add: update_body_def Let_def update_baseline_def st2_def)
  have upd: "update_sgp30 inp st
      = Inr (say (Printed ''Could not save baseline - filesystem is read-only'')
              (case file_write (tick_save inp) of
                 DumpFails n \<Rightarrow> st2\<lparr>stored := NotJson\<rparr> | _ \<Rightarrow> st2))"
    using start warm body by (simp add: update_sgp30_def check_warmup_status_def Let_def)
  show ?thesis
    unfolding upd using ro start
    by (auto simp add: st2_def update_labels_sgp30_cache)
qed

text \<open>
  C8: when \<open>save_baseline\<close> is past its gate and the write fails with errno 30, in
  \<open>open\<close> or in \<open>json.dump\<close>, the function completes normally: it prints that the
  file system is read-only and raises nothing. The iteration in which this happens has
  polled the sensor and rendered the reading: the cache holds the reading, the screen is
  the one \<open>update_labels\<close> gives, the two value lines and the read-only line are
  printed, and the time of the last save and the baseline in memory are as before.
  The loop goes on: after any further iterations, an iteration that is warmed up and
  reads the sensor completes, renders its reading and sleeps \<open>UPDATE_INTERVAL\<close>.
\<close>

theorem save_read_only_continues:
  assumes start: "start_time st = Some s"
    and gate: "save_clock (tick_save inp) - s > CALIBRATION_TIME"
    and base: "sensor_baseline (tick_save inp) = Inr b"
    and ro: "file_write (tick_save inp) = OpenFails 30 \<or> file_write (tick_save inp) = DumpFails 30"
    and warm: "clock_status inp - s > WARMUP_TIME"
    and read: "sensor_values inp = Inr (c, v)"
    and due: "clock_baseline inp - last_baseline_save st > BASELINE_SAVE_INTERVAL"
    and warm2: "clock_status inp2 - s > WARMUP_TIME"
    and read2: "sensor_values inp2 = Inr (c2, v2)"
  shows "save_baseline (tick_save inp) st
           = Inr (say (Printed ''Could not save baseline - filesystem is read-only'')
                    (case file_write (tick_save inp) of
                       DumpFails n \<Rightarrow> st\<lparr>stored := NotJson\<rparr> | _ \<Rightarrow> st))
     \<and> (\<exists>st1. update_sgp30 inp st = Inr st1
           \<and> sgp_prev_values st1
               = \<lparr>q_co2 = Some c, q_voc = Some v, q_is_high = Some (c \<ge> CO2_THRESHOLD)\<rparr>
           \<and> sgp_display st1
               = fst (snd (fst (update_labels_sgp30 c v (c \<ge> CO2_THRESHOLD)
                   (sgp_prev_values st, sgp_display st, led st))))
           \<and> sgp_printed st1
               = sgp_printed st
                 @ [Printed (''CO2: '' @ str_int c @ ''ppm''),
                    Printed (''VOC: '' @ str_int v @ ''ppb''),
                    Printed ''Could not save baseline - filesystem is read-only'']
           \<and> last_baseline_save st1 = last_baseline_save st
           \<and> iaq_baseline st1 = iaq_baseline st
           \<and> (\<forall>inps. \<exists>mid r.
                 run_sgp30 inps st1 = Inr mid \<and> run_sgp30 (inps @ [inp2]) st1 = Inr r
                 \<and> snd r = snd mid @ [UPDATE_INTERVAL]
                 \<and> sgp_prev_values (fst r)
                     = \<lparr>q_co2 = Some c2, q_voc = Some v2, q_is_high = Some (c2 \<ge> CO2_THRESHOLD)\<rparr>
                 \<and> sgp_display (fst r)
                     = fst (snd (fst (update_labels_sgp30 c2 v2 (c2 \<ge> CO2_THRESHOLD)
                         (sgp_prev_values (fst mid), sgp_display (fst mid), led (fst mid)))))))"
proof -
  from failing_save_tick [OF start gate base ro warm read due]
  obtain st1 where st1: "update_sgp30 inp st = Inr st1" "start_time st1 = Some s"
    "sgp_prev_values st1
       = \<lparr>q_co2 = Some c, q_voc = Some v, q_is_high = Some (c \<ge> CO2_THRESHOLD)\<rparr>"
    "sgp_display st1
       = fst (snd (fst (update_labels_sgp30 c v (c \<ge> CO2_THRESHOLD)
           (sgp_prev_values st, sgp_display st, led st))))"
    "sgp_printed st1
       = sgp_printed st
         @ [Printed (''CO2: '' @ str_int c @ ''ppm''),
            Printed (''VOC: '' @ str_int v @ ''ppb''),
            Printed ''Could not save baseline - filesystem is read-only'']"
    "last_baseline_save st1 = last_baseline_save st"
    "iaq_baseline st1 = iaq_baseline st"
    by blast
  have later: "\<forall>inps. \<exists>mid r.
      run_sgp30 inps st1 = Inr mid \<and> run_sgp30 (inps @ [inp2]) st1 = Inr r
      \<and> snd r = snd mid @ [UPDATE_INTERVAL]
      \<and> sgp_prev_values (fst r)
          = \<lparr>q_co2 = Some c2, q_voc = Some v2, q_is_high = Some (c2 \<ge> CO2_THRESHOLD)\<rparr>
      \<and> sgp_display (fst r)
          = fst (snd (fst (update_labels_sgp30 c2 v2 (c2 \<ge> CO2_THRESHOLD)
              (sgp_prev_values (fst mid), sgp_display (fst mid), led (fst mid)))))"
    using run_sgp30_then_renders [OF st1(2) warm2 read2] by blast
  show ?thesis
    using save_baseline_read_only [OF start gate base ro] st1 later by blast
qed


theorem save_read_only_continues_witness:
  "(\<exists>st1. update_sgp30 (sample_tick 50000 800 100 (OpenFails 30)) fresh_sgp30 = Inr st1
      \<and> sgp_prev_values st1 = \<lparr>q_co2 = Some 800, q_voc = Some 100, q_is_high = Some False\<rparr>
      \<and> last_baseline_save st1 = 0
      \<and> (\<exists>r. run_sgp30 [sample_tick 50004 1200 300 (OpenFails 30)] st1 = Inr r
             \<and> snd r = [UPDATE_INTERVAL]
             \<and> sgp_prev_values (fst r)
                 = \<lparr>q_co2 = Some 1200, q_voc = Some 300, q_is_high = Some True\<rparr>))
   \<and> save_baseline (tick_save (sample_tick 50000 800 100 (DumpFails 30))) fresh_sgp30
       = Inr (say (Printed ''Could not save baseline - filesystem is read-only'')
                (fresh_sgp30\<lparr>stored := NotJson\<rparr>))"
proof -
  have start: "start_time fresh_sgp30 = Some 0"
    by (simp add: fresh_sgp30_def initialize_baseline_tracking_def)
  have last: "last_baseline_save fresh_sgp30 = 0"
    by (simp add: fresh_sgp30_def initialize_baseline_tracking_def globals_sgp30_def)
  have gate: "save_clock (tick_save (sample_tick 50000 800 100 w)) - 0 > CALIBRATION_TIME" for w
    by (simp add: sample_tick_def CALIBRATION_TIME_def)
  have base: "sensor_baseline (tick_save (sample_tick 50000 800 100 w)) = Inr (35187, 35502)" for w
    by (simp add: sample_tick_def)
  have ro1: "file_write (tick_save (sample_tick 50000 800 100 (OpenFails 30))) = OpenFails 30
      \<or> file_write (tick_save (sample_tick 50000 800 100 (OpenFails 30))) = DumpFails 30"
    by (simp add: sample_tick_def)
  have ro2: "file_write (tick_save (sample_tick 50000 800 100 (DumpFails 30))) = OpenFails 30
      \<or> file_write (tick_save (sample_tick 50000 800 100 (DumpFails 30))) = DumpFails 30"
    by (simp add: sample_tick_def)
  have warm: "clock_status (sample_tick 50000 800 100 w) - 0 > WARMUP_TIME" for w
    by (simp add: sample_tick_def WARMUP_TIME_def)
  have read: "sensor_values (sample_tick 50000 800 100 w) = Inr (800, 100)" for w
    by (simp add: sample_tick_def)
  have due: "clock_baseline (sample_tick 50000 800 100 w) - last_baseline_save fresh_sgp30
      > BASELINE_SAVE_INTERVAL" for w
    by (simp add: sample_tick_def last BASELINE_SAVE_INTERVAL_def)
  have warm2: "clock_status (sample_tick 50004 1200 300 (OpenFails 30)) - 0 > WARMUP_TIME"
    by (simp add: sample_tick_def WARMUP_TIME_def)
  have read2: "sensor_values (sample_tick 50004 1200 300 (OpenFails 30)) = Inr (1200, 300)"
    by (simp add: sample_tick_def)
  note t1 = save_read_only_continues [OF start gate base ro1 warm read due warm2 read2]
  note t2 = save_read_only_continues [OF start gate base ro2 warm read due warm2 read2]
  from t1 obtain st1 where
    a: "update_sgp30 (sample_tick 50000 800 100 (OpenFails 30)) fresh_sgp30 = Inr st1"
      "sgp_prev_values st1
         = \<lparr>q_co2 = Some 800, q_voc = Some 100, q_is_high = Some (800 \<ge> CO2_THRESHOLD)\<rparr>"
      "last_baseline_save st1 = last_baseline_save fresh_sgp30"
    and l: "\<forall>inps. \<exists>mid r. run_sgp30 inps st1 = Inr mid
        \<and> run_sgp30 (inps @ [sample_tick 50004 1200 300 (OpenFails 30)]) st1 = Inr r
        \<and> snd r = snd mid @ [UPDATE_INTERVAL]
        \<and> sgp_prev_values (fst r)
            = \<lparr>q_co2 = Some 1200, q_voc = Some 300, q_is_high = Some (1200 \<ge> CO2_THRESHOLD)\<rparr>
        \<and> sgp_display (fst r)
            = fst (snd (fst (update_labels_sgp30 1200 300 (1200 \<ge> CO2_THRESHOLD)
                (sgp_prev_values (fst mid), sgp_display (fst mid), led (fst mid)))))"
    by blast
  from l [rule_format, of "[]"] obtain mid r where
    b: "run_sgp30 [] st1 = Inr mid"
      "run_sgp30 ([] @ [sample_tick 50004 1200 300 (OpenFails 30)]) st1 = Inr r"
      "snd r = snd mid @ [UPDATE_INTERVAL]"
      "sgp_prev_values (fst r)
         = \<lparr>q_co2 = Some 1200, q_voc = Some 300, q_is_high = Some (1200 \<ge> CO2_THRESHOLD)\<rparr>"
    by blast
  have mid: "snd mid = []" using b(1) by auto
  have r: "run_sgp30 [sample_tick 50004 1200 300 (OpenFails 30)] st1 = Inr r"
    using b(2) by (simp del: run_sgp30.simps)
  have c1: "\<exists>st1. update_sgp30 (sample_tick 50000 800 100 (OpenFails 30)) fresh_sgp30 = Inr st1
      \<and> sgp_prev_values st1 = \<lparr>q_co2 = Some 800, q_voc = Some 100, q_is_high = Some False\<rparr>
      \<and> last_baseline_save st1 = 0
      \<and> (\<exists>r. run_sgp30 [sample_tick 50004 1200 300 (OpenFails 30)] st1 = Inr r
             \<and> snd r = [UPDATE_INTERVAL]
             \<and> sgp_prev_values (fst r)
                 = \<lparr>q_co2 = Some 1200, q_voc = Some 300, q_is_high = Some True\<rparr>)"
  proof -
    have a2: "sgp_prev_values st1 = \<lparr>q_co2 = Some 800, q_voc = Some 100, q_is_high = Some False\<rparr>"
      using a(2) by (simp add: CO2_THRESHOLD_def)
    have a3: "last_baseline_save st1 = 0" using a(3) last by simp
    have b3: "snd r = [UPDATE_INTERVAL]" using b(3) mid by simp
    have b4: "sgp_prev_values (fst r)
                = \<lparr>q_co2 = Some 1200, q_voc = Some 300, q_is_high = Some True\<rparr>"
      using b(4) by (simp add: CO2_THRESHOLD_def)
    show ?thesis using a(1) a2 a3 r b3 b4 by blast
  qed
  have c2: "save_baseline (tick_save (sample_tick 50000 800 100 (DumpFails 30))) fresh_sgp30
       = Inr (say (Printed ''Could not save baseline - filesystem is read-only'')
                (fresh_sgp30\<lparr>stored := NotJson\<rparr>))"
    using t2 [THEN conjunct1] by (simp add: sample_tick_def)
  show ?thesis using c1 c2 by blast
qed

section \<open>Warm-up classification\<close>

text \<open>
  C1 (as stated, refuted): the claim puts an elapsed time equal to the warm-up threshold in
  Warmed. The code compares with \<open>>\<close>, so 15 seconds after start the sensor still
  counts as not warmed up.
\<close>

theorem warmup_boundary_counterexample:
  "map_sum id state_of_status (check_warmup_status 15 (Some 0)) = Inr NotWarmedUp
   \<and> classify_spec 15 = Warmed"
  by (simp add: check_warmup_status_def state_of_status_def classify_spec_def
      WARMUP_TIME_def CALIBRATION_TIME_def)

text \<open>
  C1 (amended): with the clock at \<open>now\<close> and the start at \<open>s\<close>, the status is
  NotWarmedUp exactly when the elapsed time is at most the warm-up threshold, Warmed
  exactly when it is above the warm-up threshold and at most the calibration threshold,
  FullyCalibrated exactly when it is above the calibration threshold; the elapsed time
  reported is \<open>now - s\<close>. At the warm-up threshold itself the status is NotWarmedUp
  and at the calibration threshold itself it is Warmed.
\<close>

theorem warmup_classification:
  "\<exists>st. check_warmup_status now (Some s) = Inr st
     \<and> elapsed_time st = now - s
     \<and> (state_of_status st = NotWarmedUp) = (now - s \<le> WARMUP_TIME)
     \<and> (state_of_status st = Warmed) = (WARMUP_TIME < now - s \<and> now - s \<le> CALIBRATION_TIME)
     \<and> (state_of_status st = FullyCalibrated) = (CALIBRATION_TIME < now - s)"
  by (auto simp add: check_warmup_status_def state_of_status_def Let_def
      WARMUP_TIME_def CALIBRATION_TIME_def)

end
